theory Spec2Isabelle
  imports Main "HOL-Library.AList"
begin

section \<open>Python values\<close>

text \<open>
  A Python \<^verbatim>\<open>str\<close> is a sequence of Unicode code points. The program's literals are
  mostly Japanese, and \<^verbatim>\<open>len\<close>, slicing and padding count code points, so a string is a
  list of code points; \<open>ascii\<close> embeds an ASCII literal.
\<close>

type_synonym pystr = "nat list"

definition ascii :: "string \<Rightarrow> pystr" where
  "ascii s = map of_char s"

text \<open>An exception carries the text that \<^verbatim>\<open>f"{e}"\<close> prints.\<close>

datatype pyexn = PyExn pystr

fun exn_str :: "pyexn \<Rightarrow> pystr" where
  "exn_str (PyExn s) = s"

text \<open>
  A float is a dyadic rational, an infinity or NaN. Its arithmetic is not modelled: rounding
  and printing are parameters (record \<open>pylib\<close> below). Only truthiness is computed.
\<close>

datatype pyfloat = Finite int int | Infinite bool | NaN

fun float_truthy :: "pyfloat \<Rightarrow> bool" where
  "float_truthy (Finite m e) = (m \<noteq> 0)"
| "float_truthy _ = True"

text \<open>What \<^verbatim>\<open>r.json()\<close> returns; \<open>JNull\<close> is Python's \<^verbatim>\<open>None\<close>.\<close>

datatype json =
    JNull
  | JBool bool
  | JInt int
  | JFloat pyfloat
  | JStr pystr
  | JList "json list"
  | JDict "(pystr \<times> json) list"

text \<open>Python truthiness, as \<^verbatim>\<open>not js\<close> and \<^verbatim>\<open>if x:\<close> test it.\<close>

fun truthy :: "json \<Rightarrow> bool" where
  "truthy JNull = False"
| "truthy (JBool b) = b"
| "truthy (JInt i) = (i \<noteq> 0)"
| "truthy (JFloat f) = float_truthy f"
| "truthy (JStr s) = (s \<noteq> [])"
| "truthy (JList xs) = (xs \<noteq> [])"
| "truthy (JDict kvs) = (kvs \<noteq> [])"

text \<open>\<^verbatim>\<open>d.get(k, default)\<close> on a parsed object (each key once).\<close>

definition dict_get :: "(pystr \<times> json) list \<Rightarrow> pystr \<Rightarrow> json \<Rightarrow> json" where
  "dict_get kvs k dflt = (case map_of kvs k of None \<Rightarrow> dflt | Some v \<Rightarrow> v)"

text \<open>Decimal digits of a natural number, as \<^verbatim>\<open>str(n)\<close> prints them.\<close>

fun py_dec :: "nat \<Rightarrow> pystr" where
  "py_dec n = (if n < 10 then [48 + n] else py_dec (n div 10) @ [48 + n mod 10])"

declare py_dec.simps [simp del]

text \<open>\<^verbatim>\<open>str(i)\<close> for an integer.\<close>

definition int_str :: "int \<Rightarrow> pystr" where
  "int_str i = (if i < 0 then 45 # py_dec (nat (- i)) else py_dec (nat i))"

subsection \<open>String operations\<close>

text \<open>The code points for which \<^verbatim>\<open>str.isspace\<close> holds; \<^verbatim>\<open>str.strip()\<close> removes them at both ends.\<close>

definition py_isspace :: "nat \<Rightarrow> bool" where
  "py_isspace c =
     (c \<in> set [9, 10, 11, 12, 13, 28, 29, 30, 31, 32, 0x85, 0xA0, 0x1680, 0x2000, 0x2001,
                0x2002, 0x2003, 0x2004, 0x2005, 0x2006, 0x2007, 0x2008, 0x2009, 0x200A,
                0x2028, 0x2029, 0x202F, 0x205F, 0x3000])"

definition py_strip :: "pystr \<Rightarrow> pystr" where
  "py_strip s = rev (dropWhile py_isspace (rev (dropWhile py_isspace s)))"

text \<open>\<^verbatim>\<open>s.split(sep)\<close> for a one-character separator and \<^verbatim>\<open>sep.join(parts)\<close>.\<close>

fun split_on :: "nat \<Rightarrow> pystr \<Rightarrow> pystr list" where
  "split_on c [] = [[]]"
| "split_on c (x # xs) =
     (if x = c then [] # split_on c xs
      else (case split_on c xs of [] \<Rightarrow> [[x]] | l # ls \<Rightarrow> (x # l) # ls))"

fun join_with :: "pystr \<Rightarrow> pystr list \<Rightarrow> pystr" where
  "join_with sep [] = []"
| "join_with sep [x] = x"
| "join_with sep (x # y # ys) = x @ sep @ join_with sep (y # ys)"

text \<open>\<^verbatim>\<open>f"{k: <n}"\<close>: pad with spaces on the right up to \<open>n\<close> code points.\<close>

definition ljust :: "nat \<Rightarrow> pystr \<Rightarrow> pystr" where
  "ljust n s = s @ replicate (n - length s) 32"

text \<open>\<^verbatim>\<open>os.path.join(a, b)\<close> for a relative \<open>b\<close>, and \<^verbatim>\<open>os.path.basename\<close>.\<close>

definition path_join :: "pystr \<Rightarrow> pystr \<Rightarrow> pystr" where
  "path_join a b = (if a = [] \<or> last a = 47 then a @ b else a @ [47] @ b)"

definition basename :: "pystr \<Rightarrow> pystr" where
  "basename p = last (split_on 47 p)"

subsection \<open>\<^verbatim>\<open>textwrap.dedent\<close>\<close>

text \<open>
  The standard library's algorithm (CPython up to 3.13): lines of spaces and tabs only become
  empty; the margin is the longest common prefix of the leading spaces and tabs of the
  remaining non-empty lines; the margin is removed from every line that starts with it.
\<close>

definition is_blank :: "nat \<Rightarrow> bool" where
  "is_blank c = (c = 32 \<or> c = 9)"

definition blank_line :: "pystr \<Rightarrow> pystr" where
  "blank_line l = (if list_all is_blank l then [] else l)"

fun common_prefix :: "pystr \<Rightarrow> pystr \<Rightarrow> pystr" where
  "common_prefix (x # xs) (y # ys) = (if x = y then x # common_prefix xs ys else [])"
| "common_prefix _ _ = []"

definition dedent_margin :: "pystr list \<Rightarrow> pystr" where
  "dedent_margin ls =
     (case map (takeWhile is_blank) (filter (\<lambda>l. \<not> list_all is_blank l) ls) of
        [] \<Rightarrow> []
      | i # is \<Rightarrow> fold (\<lambda>indent margin. common_prefix margin indent) is i)"

definition strip_margin :: "pystr \<Rightarrow> pystr \<Rightarrow> pystr" where
  "strip_margin m l = (if take (length m) l = m then drop (length m) l else l)"

definition dedent :: "pystr \<Rightarrow> pystr" where
  "dedent text =
     (let ls = map blank_line (split_on 10 text)
      in join_with [10] (map (strip_margin (dedent_margin ls)) ls))"

subsection \<open>\<^verbatim>\<open>datetime\<close>\<close>

record datetime =
  dt_year :: nat
  dt_month :: nat
  dt_day :: nat
  dt_hour :: nat
  dt_minute :: nat
  dt_second :: nat

definition pad2 :: "nat \<Rightarrow> pystr" where
  "pad2 n = [48 + n div 10 mod 10, 48 + n mod 10]"

text \<open>
  The \<^verbatim>\<open>strftime\<close> formats the program uses. \<^verbatim>\<open>%Y\<close> is printed without padding, which
  is exact for years from 1000 on.
\<close>

definition strftime_date_ja :: "datetime \<Rightarrow> pystr" where
  "strftime_date_ja d =
     py_dec (dt_year d) @ [0x5E74] @ pad2 (dt_month d) @ [0x6708] @ pad2 (dt_day d) @ [0x65E5]"

definition strftime_slug :: "datetime \<Rightarrow> pystr" where
  "strftime_slug d =
     py_dec (dt_year d) @ pad2 (dt_month d) @ pad2 (dt_day d) @ ascii ''-''
     @ pad2 (dt_hour d) @ pad2 (dt_minute d)"

definition strftime_file :: "datetime \<Rightarrow> pystr" where
  "strftime_file d =
     py_dec (dt_year d) @ pad2 (dt_month d) @ pad2 (dt_day d) @ ascii ''_''
     @ pad2 (dt_hour d) @ pad2 (dt_minute d) @ pad2 (dt_second d)"

definition strftime_canvas :: "datetime \<Rightarrow> pystr" where
  "strftime_canvas d =
     py_dec (dt_year d) @ ascii ''-'' @ pad2 (dt_month d) @ ascii ''-'' @ pad2 (dt_day d)
     @ ascii '' '' @ pad2 (dt_hour d) @ ascii '':'' @ pad2 (dt_minute d) @ ascii '' JST''"

section \<open>The world outside the process\<close>

text \<open>
  Every call that leaves the process is recorded as an event, in program order. Timeouts,
  authentication objects and HTTP headers are not recorded. A \<open>Log\<close> event is one call of
  \<^verbatim>\<open>log\<close>, without its timestamp.
\<close>

datatype body = JsonBody json | FilesBody pystr pystr

datatype event =
    Log pystr
  | YfHistory pystr
  | Get pystr "(pystr \<times> pystr) list"
  | Post pystr body
  | ChatCreate pystr pystr
  | ImagesGenerate pystr
  | OpenRead pystr
  | WriteFile pystr
  | SaveFig pystr "pystr list"

fun is_network :: "event \<Rightarrow> bool" where
  "is_network (YfHistory _) = True"
| "is_network (Get _ _) = True"
| "is_network (Post _ _) = True"
| "is_network (ChatCreate _ _) = True"
| "is_network (ImagesGenerate _) = True"
| "is_network _ = False"

text \<open>
  An HTTP call raises, or answers with a status code, the outcome of \<^verbatim>\<open>r.json()\<close> (which
  may itself raise) and the body text.
\<close>

datatype http_reply = Raises pyexn | Reply nat "pyexn + json" pystr

text \<open>
  \<^verbatim>\<open>yf.Ticker(t).history(period="1d")\<close> followed by \<^verbatim>\<open>data["Close"]\<close>: it raises, or gives
  the rows' closing prices, oldest first.
\<close>

datatype yf_reply = YfRaises pyexn | YfData "pyfloat list"

text \<open>The two batches of price requests of one run: for the article and for the image.\<close>

datatype batch = ForContext | ForImage

text \<open>Module globals, as the assignments at import time leave them.\<close>

record config =
  WP_BASE_URL :: pystr
  WP_API_ENDPOINT :: pystr
  WP_USERNAME :: pystr
  WP_APP_PASSWORD :: pystr
  WP_CATEGORY_ID :: pystr
  POST_STATUS :: pystr
  WP_TAGS_RAW :: pystr
  FINNHUB_API_KEY :: pystr
  OPENAI_API_KEY :: pystr
  SLUG_PREFIX :: pystr
  openai_ok :: bool
  openai_ctor_ok :: bool

text \<open>Library operations whose algorithms are not modelled.\<close>

record pylib =
  round2 :: "pyfloat \<Rightarrow> pyfloat"
  float_str :: "pyfloat \<Rightarrow> pystr"
  json_str :: "json \<Rightarrow> pystr"
  json_int :: "json \<Rightarrow> pyexn + int"
  bad_access :: "json \<Rightarrow> pyexn"
  str_isdigit :: "pystr \<Rightarrow> bool"
  str_int :: "pystr \<Rightarrow> pyexn + int"

text \<open>The generative services: a call raises or answers.\<close>

datatype chat_reply = ChatRaises pyexn | ChatContent pystr

text \<open>
  \<^verbatim>\<open>client.images.generate\<close>: it raises; or the answer lacks \<^verbatim>\<open>data\<close>, has an empty
  \<^verbatim>\<open>data\<close> or an item without \<^verbatim>\<open>b64_json\<close>; or the item has the attribute, and
  \<^verbatim>\<open>base64.b64decode\<close> of it raises or gives bytes.
\<close>

datatype img_reply = ImgRaises pyexn | ImgNoPayload | ImgPayload "pyexn + nat list"

text \<open>The places where \<^verbatim>\<open>datetime.now(JST)\<close> is read (\<^verbatim>\<open>log\<close> apart).\<close>

datatype clock_site = AtMain | AtFallbackText | AtGeneratedFile | AtCanvas | AtRenderedFile

text \<open>
  The collaborators' answers during one run. Each field is asked at most once per
  argument in a run, so any behaviour of the services over time is some value of this record.
  \<open>utc_dates t\<close> is the pair of ISO dates \<^verbatim>\<open>(utcnow() - 4 days, utcnow())\<close> read while the
  news of ticker \<open>t\<close> are requested. \<open>tag_search k\<close> and \<open>tag_create k\<close> answer the
  requests for the \<open>k\<close>-th configured tag. \<open>savefig\<close> is the outcome of the Matplotlib
  calls from \<^verbatim>\<open>plt.subplots\<close> to \<^verbatim>\<open>plt.close\<close>: \<open>None\<close> when none of them raises.
  \<open>write_file\<close> and \<open>open_read\<close> are \<^verbatim>\<open>open(.., "wb")\<close> with its write and
  \<^verbatim>\<open>open(.., "rb")\<close>.
\<close>

record collaborators =
  yf :: "batch \<Rightarrow> pystr \<Rightarrow> yf_reply"
  utc_dates :: "pystr \<Rightarrow> pystr \<times> pystr"
  news_get :: "pystr \<Rightarrow> http_reply"
  now_jst :: "clock_site \<Rightarrow> datetime"
  chat :: "pystr \<Rightarrow> pystr \<Rightarrow> chat_reply"
  images :: "pystr \<Rightarrow> img_reply"
  cwd :: pystr
  write_file :: "pystr \<Rightarrow> nat list \<Rightarrow> pyexn option"
  savefig :: "pystr \<Rightarrow> pystr list \<Rightarrow> pyexn option"
  posts_query :: "pystr \<Rightarrow> http_reply"
  tag_search :: "nat \<Rightarrow> pystr \<Rightarrow> http_reply"
  tag_create :: "nat \<Rightarrow> pystr \<Rightarrow> http_reply"
  open_read :: "pystr \<Rightarrow> pyexn option"
  media_post :: "pystr \<Rightarrow> http_reply"
  post_create :: "json \<Rightarrow> http_reply"

record world =
  cfg :: config
  lib :: pylib
  ext :: collaborators

text \<open>
  \<^verbatim>\<open>client\<close> is set when the SDK was imported, a key is configured and the constructor did
  not raise. The three CMS addresses are built from the base address.
\<close>

definition client :: "world \<Rightarrow> bool" where
  "client w = (openai_ok (cfg w) \<and> OPENAI_API_KEY (cfg w) \<noteq> [] \<and> openai_ctor_ok (cfg w))"

definition WP_POSTS_URL :: "world \<Rightarrow> pystr" where
  "WP_POSTS_URL w = WP_BASE_URL (cfg w) @ WP_API_ENDPOINT (cfg w)"

definition WP_MEDIA_URL :: "world \<Rightarrow> pystr" where
  "WP_MEDIA_URL w = WP_BASE_URL (cfg w) @ ascii ''/wp-json/wp/v2/media''"

definition WP_TAGS_URL :: "world \<Rightarrow> pystr" where
  "WP_TAGS_URL w = WP_BASE_URL (cfg w) @ ascii ''/wp-json/wp/v2/tags''"

text \<open>\<^verbatim>\<open>f"{v}"\<close> for an optional price and for a JSON value.\<close>

definition opt_str :: "world \<Rightarrow> pyfloat option \<Rightarrow> pystr" where
  "opt_str w v = (case v of None \<Rightarrow> ascii ''None'' | Some f \<Rightarrow> float_str (lib w) f)"

definition py_str :: "world \<Rightarrow> json \<Rightarrow> pystr" where
  "py_str w j = (case j of JStr s \<Rightarrow> s | _ \<Rightarrow> json_str (lib w) j)"

text \<open>\<^verbatim>\<open>int(x)\<close> and \<^verbatim>\<open>x["id"]\<close> on a JSON value; both can raise.\<close>

definition py_int :: "world \<Rightarrow> json \<Rightarrow> pyexn + int" where
  "py_int w j = (case j of JInt i \<Rightarrow> Inr i | _ \<Rightarrow> json_int (lib w) j)"

definition item_id :: "world \<Rightarrow> json \<Rightarrow> pyexn + json" where
  "item_id w j =
     (case j of
        JDict kvs \<Rightarrow>
          (case map_of kvs (ascii ''id'') of
             None \<Rightarrow> Inl (PyExn ([39] @ ascii ''id'' @ [39]))
           | Some v \<Rightarrow> Inr v)
      | _ \<Rightarrow> Inl (bad_access (lib w) j))"

section \<open>Utilities\<close>

definition log :: "pystr \<Rightarrow> event list" where
  "log msg = [Log msg]"

text \<open>
  \<^verbatim>\<open>http_json\<close>: the request, \<^verbatim>\<open>r.json()\<close> on status 200, a log line and \<^verbatim>\<open>None\<close>
  otherwise. The \<^verbatim>\<open>except\<close> clause also catches what \<^verbatim>\<open>r.json()\<close> raises.
\<close>

definition http_json :: "world \<Rightarrow> pystr \<Rightarrow> json \<times> event list" where
  "http_json w url =
     (case news_get (ext w) url of
        Raises e \<Rightarrow>
          (JNull, Get url [] #
             log (ascii ''http_json'' @ [0x4F8B, 0x5916] @ ascii '': '' @ url
                  @ ascii '' | '' @ exn_str e))
      | Reply st js txt \<Rightarrow>
          if st = 200 then
            (case js of
               Inr j \<Rightarrow> (j, [Get url []])
             | Inl e \<Rightarrow>
                 (JNull, Get url [] #
                    log (ascii ''http_json'' @ [0x4F8B, 0x5916] @ ascii '': '' @ url
                         @ ascii '' | '' @ exn_str e)))
          else
            (JNull, Get url [] #
               log (ascii ''http_json '' @ [0x5931, 0x6557] @ ascii '': '' @ url
                    @ ascii '' ['' @ py_dec st @ ascii ''] '' @ take 150 txt)))"

section \<open>Data collection\<close>

definition price_of :: "world \<Rightarrow> batch \<Rightarrow> pystr \<Rightarrow> pyfloat option \<times> event list" where
  "price_of w b ticker =
     (case yf (ext w) b ticker of
        YfRaises e \<Rightarrow>
          (None, YfHistory ticker #
             log (ascii ''yfinance '' @ [0x4FA1, 0x683C, 0x53D6, 0x5F97, 0x5931, 0x6557]
                  @ ascii '': '' @ ticker @ ascii '' | '' @ exn_str e))
      | YfData closes \<Rightarrow>
          if length closes = 0 then (None, [YfHistory ticker])
          else (Some (round2 (lib w) (last closes)), [YfHistory ticker]))"

text \<open>
  The loop \<^verbatim>\<open>for name,tkr in tickers.items(): out[name] = price_of(tkr)\<close>. A dict keeps
  insertion order; assigning to a key that is present replaces its value in place.
\<close>

fun price_loop ::
  "world \<Rightarrow> batch \<Rightarrow> (pystr \<times> pystr) list \<Rightarrow> (pystr \<times> pyfloat option) list
     \<Rightarrow> (pystr \<times> pyfloat option) list \<times> event list" where
  "price_loop w b [] out = (out, [])"
| "price_loop w b ((name, tkr) # rest) out =
     (case price_of w b tkr of (v, ev) \<Rightarrow>
        (case price_loop w b rest (AList.update name v out) of (out', ev') \<Rightarrow>
           (out', ev @ ev')))"

definition tickers :: "(pystr \<times> pystr) list" where
  "tickers =
     [(ascii ''VIX'', ascii ''^VIX''),
      ([0x30C9, 0x30EB, 0x30A4, 0x30F3, 0x30C7, 0x30C3, 0x30AF, 0x30B9], ascii ''DX-Y.NYB''),
      (ascii ''WTI'' @ [0x539F, 0x6CB9], ascii ''CL=F''),
      ([0x91D1, 0x5148, 0x7269], ascii ''GC=F''),
      ([0x7C73] @ ascii ''10'' @ [0x5E74, 0x50B5, 0x5229, 0x56DE, 0x308A] @ ascii ''(%)'',
       ascii ''^TNX'')]"

definition market_dashboard ::
  "world \<Rightarrow> batch \<Rightarrow> (pystr \<times> pyfloat option) list \<times> event list" where
  "market_dashboard w b = price_loop w b tickers []"

definition names :: "pystr list" where
  "names = [ascii ''AAPL'', ascii ''MSFT'', ascii ''NVDA'', ascii ''AMZN'', ascii ''META'',
            ascii ''GOOGL'', ascii ''TSLA'']"

definition m7_prices ::
  "world \<Rightarrow> batch \<Rightarrow> (pystr \<times> pyfloat option) list \<times> event list" where
  "m7_prices w b = price_loop w b (map (\<lambda>t. (t, t)) names) []"

definition news_url :: "world \<Rightarrow> pystr \<Rightarrow> pystr" where
  "news_url w ticker =
     (case utc_dates (ext w) ticker of (frm, to) \<Rightarrow>
        ascii ''https://finnhub.io/api/v1/company-news?symbol='' @ ticker
        @ ascii ''&from='' @ frm @ ascii ''&to='' @ to
        @ ascii ''&token='' @ FINNHUB_API_KEY (cfg w))"

definition finnhub_company_news :: "world \<Rightarrow> pystr \<Rightarrow> json list \<times> event list" where
  "finnhub_company_news w ticker =
     (if FINNHUB_API_KEY (cfg w) = [] then ([], [])
      else
        (case http_json w (news_url w ticker) of (js, ev) \<Rightarrow>
           if \<not> truthy js
              \<or> (case js of JDict kvs \<Rightarrow> truthy (dict_get kvs (ascii ''error'') JNull)
                            | _ \<Rightarrow> False)
           then ([], ev)
           else (case js of JList xs \<Rightarrow> (take 2 xs, ev) | _ \<Rightarrow> ([], ev))))"

section \<open>Article generation\<close>

text \<open>\<^verbatim>\<open>f"- {k}: {v}"\<close>: one line of the context per instrument.\<close>

definition context_line :: "world \<Rightarrow> pystr \<times> pyfloat option \<Rightarrow> pystr" where
  "context_line w kv = ascii ''- '' @ fst kv @ ascii '': '' @ opt_str w (snd kv)"

text \<open>
  The inner loop over the news items of one ticker. \<^verbatim>\<open>n.get\<close> raises when \<open>n\<close> is not an
  object, and \<^verbatim>\<open>.strip()\<close> raises when the headline is not a string; neither is caught.
\<close>

fun news_item_lines :: "world \<Rightarrow> json list \<Rightarrow> pyexn + pystr list" where
  "news_item_lines w [] = Inr []"
| "news_item_lines w (n # ns) =
     (case n of
        JDict kvs \<Rightarrow>
          (case dict_get kvs (ascii ''headline'') (JStr []) of
             JStr h \<Rightarrow>
               (case news_item_lines w ns of
                  Inl e \<Rightarrow> Inl e
                | Inr rest \<Rightarrow>
                    Inr ((ascii ''  - '' @ py_strip h @ ascii '' (''
                          @ py_str w (dict_get kvs (ascii ''url'') (JStr [])) @ ascii '')'')
                         # rest))
           | j \<Rightarrow> Inl (bad_access (lib w) j))
      | _ \<Rightarrow> Inl (bad_access (lib w) n))"

definition news_tickers :: "pystr list" where
  "news_tickers = [ascii ''AAPL'', ascii ''NVDA'', ascii ''TSLA'', ascii ''MSFT'', ascii ''META'',
                   ascii ''GOOGL'', ascii ''AMZN'']"

text \<open>The outer loop: one request per ticker, until an item raises.\<close>

fun news_loop :: "world \<Rightarrow> pystr list \<Rightarrow> (pyexn + pystr list) \<times> event list" where
  "news_loop w [] = (Inr [], [])"
| "news_loop w (t # ts) =
     (case finnhub_company_news w t of (ns, ev) \<Rightarrow>
        if ns \<noteq> [] then
          (case news_item_lines w ns of
             Inl e \<Rightarrow> (Inl e, ev)
           | Inr ls \<Rightarrow>
               (case news_loop w ts of
                  (Inl e, ev') \<Rightarrow> (Inl e, ev @ ev')
                | (Inr rest, ev') \<Rightarrow> (Inr ((ascii ''- '' @ t @ ascii '':'') # ls @ rest), ev @ ev')))
        else
          (case news_loop w ts of
             (Inl e, ev') \<Rightarrow> (Inl e, ev @ ev')
           | (Inr rest, ev') \<Rightarrow> (Inr rest, ev @ ev')))"

definition macro_header :: pystr where
  "macro_header = [0x3010, 0x4E3B, 0x8981, 0x6307, 0x6A19, 0x3011]"

definition m7_header :: pystr where
  "m7_header =
     [0xA, 0x3010, 0x30DE, 0x30B0, 0x30CB, 0x30D5, 0x30A3, 0x30BB, 0x30F3, 0x30C8, 0x30BB,
      0x30D6, 0x30F3, 0x3011]"

definition news_header :: pystr where
  "news_header =
     [0xA, 0x3010, 0x793E, 0x540D, 0x30D9, 0x30FC, 0x30B9, 0x306E, 0x8A71, 0x984C, 0x9298,
      0x67C4, 0x30CB, 0x30E5, 0x30FC, 0x30B9, 0x3011]"

definition build_context_text :: "world \<Rightarrow> (pyexn + pystr) \<times> event list" where
  "build_context_text w =
     (case market_dashboard w ForContext of (dash, ev1) \<Rightarrow>
      case m7_prices w ForContext of (m7, ev2) \<Rightarrow>
      case news_loop w news_tickers of
        (Inl e, ev3) \<Rightarrow> (Inl e, ev1 @ ev2 @ ev3)
      | (Inr news, ev3) \<Rightarrow>
          (Inr (join_with [10]
                  ([macro_header] @ map (context_line w) dash
                   @ [m7_header] @ map (context_line w) m7
                   @ [news_header] @ news)),
           ev1 @ ev2 @ ev3))"

definition sys_prompt :: pystr where
  "sys_prompt =
     [0x3042, 0x306A, 0x305F, 0x306F, 0x65E5, 0x672C, 0x8A9E, 0x306E] @
     [0x6295, 0x8CC7, 0x30E9, 0x30A4, 0x30BF, 0x30FC, 0x3067, 0x3059] @
     [0x3002, 0x4EE5, 0x4E0B, 0x306E, 0x5E02, 0x5834, 0x30C7, 0x30FC] @
     [0x30BF, 0x30FB, 0x30CB, 0x30E5, 0x30FC, 0x30B9, 0x3092, 0x4F7F] @
     [0x3063, 0x3066, 0x3001, 0x6295, 0x8CC7, 0x5BB6, 0x5411, 0x3051] @
     [0x306B, 0x8AAD, 0x307F, 0x3084, 0x3059, 0x3044, 0x9577, 0x6587] @
     [0x306E, 0x76F8, 0x5834, 0x30EC, 0x30DD, 0x30FC, 0x30C8, 0x3092] @
     [0x4F5C, 0x6210, 0x3057, 0x3066, 0x304F, 0x3060, 0x3055, 0x3044] @
     [0x3002, 0x898B, 0x51FA, 0x3057, 0x306F, 0x300C] @ ascii ''1. 2. 3. '' @
     [0x2026, 0x300D, 0x306E, 0x756A, 0x53F7, 0x898B, 0x51FA, 0x3057] @
     [0x3092, 0x4F7F, 0x3044, 0x3001] @ ascii ''## '' @ [0x7B49, 0x306E] @
     ascii ''Markdown'' @
     [0x898B, 0x51FA, 0x3057, 0x8A18, 0x53F7, 0x306F, 0x4ED8, 0x3051] @
     [0x306A, 0x3044, 0x3067, 0x304F, 0x3060, 0x3055, 0x3044, 0x3002] @
     [0x6295, 0x8CC7, 0x30A2, 0x30C9, 0x30D0, 0x30A4, 0x30B9, 0x306F] @
     [0x4E00, 0x822C, 0x7684, 0x30FB, 0x6559, 0x80B2, 0x7684, 0x306A] @
     [0x89B3, 0x70B9, 0x306B, 0x3068, 0x3069, 0x3081, 0x3001, 0x7279] @
     [0x5B9A, 0x9298, 0x67C4, 0x306E, 0x63A8, 0x5968, 0x306F, 0x907F] @
     [0x3051, 0x307E, 0x3059, 0x3002, 0x5B89, 0x5168, 0x8CC7, 0x7523] @
     [0xFF08, 0x30B4, 0x30FC, 0x30EB, 0x30C9, 0x30FB, 0x50B5, 0x5238] @
     [0x30FB, 0x6295, 0x8CC7, 0x4FE1, 0x8A17, 0xFF09, 0x306B, 0x3082] @
     [0x5FC5, 0x305A, 0x8A00, 0x53CA, 0x3057, 0x3001] @ ascii ''VIX'' @
     [0x30FB, 0x30C9, 0x30EB, 0x30A4, 0x30F3, 0x30C7, 0x30C3, 0x30AF] @
     [0x30B9, 0x30FB] @ ascii ''WTI'' @
     [0x30FB, 0x91D1, 0x5229, 0x306B, 0x3082, 0x89E6, 0x308C, 0x3066] @
     [0x304F, 0x3060, 0x3055, 0x3044, 0x3002, 0x6700, 0x5F8C, 0x306B] @
     [0x3001, 0x30DE, 0x30B0, 0x30CB, 0x30D5, 0x30A3, 0x30BB, 0x30F3] @
     [0x30C8, 0x30BB, 0x30D6, 0x30F3, 0x306E, 0x30CF, 0x30A4, 0x30E9] @
     [0x30A4, 0x30C8, 0x3068, 0x793E, 0x540D, 0x30D9, 0x30FC, 0x30B9] @
     [0x306E, 0x8A71, 0x984C, 0x9298, 0x67C4, 0x3092, 0x7B87, 0x6761] @
     [0x66F8, 0x304D, 0x3067, 0x8981, 0x7D04, 0x3057, 0x3066, 0x304F] @
     [0x3060, 0x3055, 0x3044, 0x3002, 0x672C, 0x6587, 0x306F] @ ascii ''2000'' @
     [0x301C] @ ascii ''2600'' @ [0x5B57, 0x7A0B, 0x5EA6, 0x3002]"

definition user_prompt :: "pystr \<Rightarrow> pystr" where
  "user_prompt context_text =
     [0x672C, 0x65E5, 0x306E, 0x5E02, 0x5834, 0x30C7, 0x30FC, 0x30BF] @
     [0x3068, 0x6750, 0x6599] @ ascii '':'' @ [0xA] @ context_text @
     [0xA, 0xA, 0x3053, 0x308C, 0x3092, 0x4F7F, 0x3063, 0x3066] @
     [0x8A18, 0x4E8B, 0x3092, 0x66F8, 0x3044, 0x3066, 0x304F, 0x3060] @
     [0x3055, 0x3044, 0x3002]"

text \<open>
  A \<open>ChatRaises\<close> answer also stands for an answer without choices or without content, where
  \<^verbatim>\<open>resp.choices[0].message.content.strip()\<close> raises inside the \<^verbatim>\<open>try\<close>.
\<close>

definition long_article_by_openai :: "world \<Rightarrow> pystr \<Rightarrow> pystr option \<times> event list" where
  "long_article_by_openai w context_text =
     (if \<not> client w then (None, [])
      else
        (case chat (ext w) sys_prompt (user_prompt context_text) of
           ChatRaises e \<Rightarrow>
             (None, ChatCreate sys_prompt (user_prompt context_text) #
                log (ascii ''OpenAI'' @ [0x672C, 0x6587, 0x751F, 0x6210] @ ascii '' ''
                     @ [0x5931, 0x6557] @ ascii '': '' @ exn_str e))
         | ChatContent c \<Rightarrow>
             (Some (py_strip c), [ChatCreate sys_prompt (user_prompt context_text)])))"

text \<open>
  The template of \<^verbatim>\<open>long_article_fallback\<close>, cut at its two placeholders. Every line of the
  literal carries the four spaces of the function body's indentation.
\<close>

definition template_head :: pystr where
  "template_head =
     [0xA] @ ascii ''    1. '' @
     [0x672C, 0x65E5, 0x306E, 0x5E02, 0x5834, 0x30B5, 0x30DE, 0x30EA] @
     [0x30FC, 0xFF08]"

definition template_middle :: pystr where
  "template_middle =
     [0xFF09, 0xA] @ ascii ''    '' @
     [0x672C, 0x30EC, 0x30DD, 0x30FC, 0x30C8, 0x3067, 0x306F, 0x3001] @
     [0x7C73, 0x56FD, 0x682A, 0x5F0F, 0x30FB, 0x70BA, 0x66FF, 0x30FB] @
     [0x30B3, 0x30E2, 0x30C7, 0x30A3, 0x30C6, 0x30A3, 0x30FB, 0x50B5] @
     [0x5238, 0x3092, 0x6A2A, 0x65AD, 0x3057, 0x3066, 0x4FEF, 0x77B0] @
     [0x3057, 0x307E, 0x3059, 0x3002, 0x4E3B, 0x8981, 0x6307, 0x6A19] @
     [0x306E, 0x52D5, 0x304D, 0x30FB, 0x30CB, 0x30E5, 0x30FC, 0x30B9] @
     [0x306E, 0x80CC, 0x666F, 0x3092, 0x6574, 0x7406, 0x3057, 0x3001] @
     [0x6295, 0x8CC7, 0x5BB6, 0x304C, 0x62BC, 0x3055, 0x3048, 0x308B] @
     [0x3079, 0x304D, 0x89B3, 0x70B9, 0x3092, 0x89E3, 0x8AAC, 0x3057] @
     [0x307E, 0x3059, 0x3002, 0xA, 0xA] @ ascii ''    2. '' @
     [0x4E3B, 0x8981, 0x6307, 0x6A19, 0x306E, 0x73FE, 0x72B6, 0xA] @ ascii ''    ''"

definition template_tail :: pystr where
  "template_tail =
     [0xA, 0xA] @ ascii ''    3. '' @
     [0x5B89, 0x5168, 0x8CC7, 0x7523, 0x306E, 0x4F4D, 0x7F6E, 0x3065] @
     [0x3051, 0xA] @ ascii ''    '' @
     [0x5E02, 0x5834, 0x306E, 0x4E0D, 0x78BA, 0x5B9F, 0x6027, 0x304C] @
     [0x9AD8, 0x307E, 0x308B, 0x5C40, 0x9762, 0x3067, 0x306F, 0x3001] @
     [0x91D1, 0x3084, 0x826F, 0x8CEA, 0x306A, 0x50B5, 0x5238, 0x3001] @
     [0x30A4, 0x30F3, 0x30C7, 0x30C3, 0x30AF, 0x30B9, 0x578B, 0x306E] @
     [0x6295, 0x8CC7, 0x4FE1, 0x8A17, 0x304C, 0x76F8, 0x5BFE, 0x7684] @
     [0x306B, 0x5805, 0x8ABF, 0x3068, 0x306A, 0x308B, 0x50BE, 0x5411] @
     [0x304C, 0x3042, 0x308A, 0x307E, 0x3059, 0x3002] @ ascii ''VIX'' @
     [0x304C, 0x4E0A, 0x6607, 0x3059, 0x308B, 0x5834, 0x5408, 0x306F] @
     [0x30DC, 0x30E9, 0x30C6, 0x30A3, 0x30EA, 0x30C6, 0x30A3, 0x30FB] @
     [0x30EA, 0x30B9, 0x30AF, 0x304C, 0x9AD8, 0x307E, 0x308B, 0x305F] @
     [0x3081, 0x3001, 0x5206, 0x6563, 0x3068, 0x30AD, 0x30E3, 0x30C3] @
     [0x30B7, 0x30E5, 0x4F59, 0x529B, 0x3092, 0x91CD, 0x8996, 0x3057] @
     [0x305F, 0x904B, 0x7528, 0x304C, 0x6709, 0x52B9, 0x3067, 0x3059] @
     [0x3002, 0xA, 0xA] @ ascii ''    4. '' @
     [0x91D1, 0x5229, 0x30FB, 0x30C9, 0x30EB, 0x30A4, 0x30F3, 0x30C7] @
     [0x30C3, 0x30AF, 0x30B9, 0x306E, 0x793A, 0x5506, 0xA] @ ascii ''    '' @
     [0x7C73] @ ascii ''10'' @
     [0x5E74, 0x50B5, 0x5229, 0x56DE, 0x308A, 0x306E, 0x5909, 0x52D5] @
     [0x306F, 0x682A, 0x5F0F, 0x306E, 0x5272, 0x5F15, 0x7387, 0x3092] @
     [0x901A, 0x3058, 0x3066, 0x30D0, 0x30EA, 0x30E5, 0x30A8, 0x30FC] @
     [0x30B7, 0x30E7, 0x30F3, 0x306B, 0x5F71, 0x97FF, 0x3057, 0x307E] @
     [0x3059, 0x3002, 0x30C9, 0x30EB, 0x30A4, 0x30F3, 0x30C7, 0x30C3] @
     [0x30AF, 0x30B9, 0x306F, 0x30B3, 0x30E2, 0x30C7, 0x30A3, 0x30C6] @
     [0x30A3, 0x4FA1, 0x683C, 0x306E, 0x9006, 0x98A8] @ ascii ''/'' @
     [0x8FFD, 0x3044, 0x98A8, 0x3068, 0x306A, 0x308A, 0x3001] @ ascii ''WTI'' @
     [0x539F, 0x6CB9, 0x3084, 0x91D1, 0x306E, 0x30C8, 0x30EC, 0x30F3] @
     [0x30C9, 0x306B, 0x6CE2, 0x53CA, 0x3059, 0x308B, 0x70B9, 0x306B] @
     [0x3082, 0x7559, 0x610F, 0x304C, 0x5FC5, 0x8981, 0x3067, 0x3059] @
     [0x3002, 0xA, 0xA] @ ascii ''    5. '' @
     [0x30DE, 0x30B0, 0x30CB, 0x30D5, 0x30A3, 0x30BB, 0x30F3, 0x30C8] @
     [0x30BB, 0x30D6, 0x30F3, 0x306E, 0x52D5, 0x5411, 0xA] @ ascii ''    '' @
     [0x9AD8, 0x3044, 0x53CE, 0x76CA, 0x6027, 0x3068] @ ascii ''AI/'' @
     [0x30AF, 0x30E9, 0x30A6, 0x30C9, 0x7B49, 0x306E, 0x6210, 0x9577] @
     [0x9818, 0x57DF, 0x3092, 0x80CC, 0x666F, 0x306B, 0x3001, 0x4F9D] @
     [0x7136, 0x3068, 0x3057, 0x3066, 0x6307, 0x6570, 0x5BC4, 0x4E0E] @
     [0x5EA6, 0x304C, 0x9AD8, 0x3044, 0x30BB, 0x30AF, 0x30BF, 0x30FC] @
     [0x3067, 0x3059, 0x3002, 0x305F, 0x3060, 0x3057, 0x30A4, 0x30D9] @
     [0x30F3, 0x30C8, 0x30FB, 0x6C7A, 0x7B97, 0x671F, 0x306B, 0x306F] @
     [0x5909, 0x52D5, 0x7387, 0x304C, 0x4E0A, 0x304C, 0x308B, 0x305F] @
     [0x3081, 0x3001, 0x30EA, 0x30B9, 0x30AF, 0x7BA1, 0x7406, 0x3092] @
     [0x5FB9, 0x5E95, 0x3057, 0x305F, 0x3044, 0x3068, 0x3053, 0x308D] @
     [0x3067, 0x3059, 0x3002, 0xA, 0xA] @ ascii ''    6. '' @
     [0x6295, 0x8CC7, 0x5BB6, 0x306B, 0x3068, 0x3063, 0x3066, 0x306E] @
     [0x5B9F, 0x52D9, 0x7684, 0x30DD, 0x30A4, 0x30F3, 0x30C8, 0xA] @
     ascii ''    - '' @
     [0x30DC, 0x30E9, 0x30C6, 0x30A3, 0x30EA, 0x30C6, 0x30A3, 0x4E0A] @
     [0x6607, 0x4E0B, 0x3067, 0x306F, 0x3001, 0x30DD, 0x30B8, 0x30B7] @
     [0x30E7, 0x30F3, 0x30B5, 0x30A4, 0x30BA, 0x8ABF, 0x6574, 0x30FB] @
     [0x30C7, 0x30A3, 0x30D5, 0x30A7, 0x30F3, 0x30B7, 0x30D6, 0x8CC7] @
     [0x7523, 0x306E, 0x7D44, 0x307F, 0x8FBC, 0x307F, 0x30FB, 0x30D8] @
     [0x30C3, 0x30B8, 0x624B, 0x6BB5, 0x306E, 0x691C, 0x8A0E, 0x304C] @
     [0x6709, 0x7528, 0xA] @ ascii ''    - '' @
     [0x9577, 0x671F, 0x6295, 0x8CC7, 0x306E, 0x8EF8, 0x306F, 0x5206] @
     [0x6563, 0x30FB, 0x4F4E, 0x30B3, 0x30B9, 0x30C8, 0x30FB, 0x898F] @
     [0x5F8B, 0x3092, 0x57FA, 0x672C, 0x306B, 0xA] @ ascii ''    - '' @
     [0x30C6, 0x30FC, 0x30DE, 0x6295, 0x8CC7, 0x306F, 0x4E2D, 0x6838] @
     [0x8CC7, 0x7523, 0x3068, 0x885B, 0x661F, 0x8CC7, 0x7523, 0x3092] @
     [0x660E, 0x78BA, 0x306B, 0x5206, 0x96E2, 0x3057, 0x3001, 0x60F3] @
     [0x5B9A, 0x5916, 0x306E, 0x5909, 0x52D5, 0x306B, 0x5099, 0x3048] @
     [0x308B, 0xA, 0xA] @ ascii ''    7. '' @ [0x307E, 0x3068, 0x3081, 0xA] @
     ascii ''    '' @
     [0x672C, 0x65E5, 0x306E, 0x6750, 0x6599, 0x3092, 0x8E0F, 0x307E] @
     [0x3048, 0x3001, 0x904E, 0x5EA6, 0x306A, 0x5F37, 0x6C17] @ ascii ''/'' @
     [0x5F31, 0x6C17, 0x306B, 0x632F, 0x308C, 0x305A, 0x3001, 0x30C7] @
     [0x30FC, 0x30BF, 0x306B, 0x57FA, 0x3065, 0x304F, 0x5224, 0x65AD] @
     [0x3092, 0x7A4D, 0x307F, 0x91CD, 0x306D, 0x308B, 0x3053, 0x3068] @
     [0x304C, 0x91CD, 0x8981, 0x3067, 0x3059, 0x3002, 0xA] @ ascii ''    ''"

definition long_article_fallback :: "world \<Rightarrow> pystr \<Rightarrow> pystr" where
  "long_article_fallback w context_text =
     py_strip (dedent (template_head @ strftime_date_ja (now_jst (ext w) AtFallbackText)
                       @ template_middle @ context_text @ template_tail))"

definition build_article :: "world \<Rightarrow> (pyexn + pystr) \<times> event list" where
  "build_article w =
     (case build_context_text w of
        (Inl e, ev) \<Rightarrow> (Inl e, ev)
      | (Inr ctx, ev) \<Rightarrow>
          (case long_article_by_openai w ctx of
             (text, ev') \<Rightarrow>
               (Inr (case text of
                       None \<Rightarrow> long_article_fallback w ctx
                     | Some t \<Rightarrow> if t \<noteq> [] then t else long_article_fallback w ctx),
                ev @ ev')))"

section \<open>Image generation\<close>

definition image_prompt :: pystr where
  "image_prompt =
     [0x7C73, 0x56FD, 0x5E02, 0x5834, 0x306E, 0x30C0, 0x30C3, 0x30B7] @
     [0x30E5, 0x30DC, 0x30FC, 0x30C9, 0x3002] @ ascii ''VIX'' @
     [0x30FB, 0x30C9, 0x30EB, 0x30A4, 0x30F3, 0x30C7, 0x30C3, 0x30AF] @
     [0x30B9, 0x30FB] @ ascii ''WTI'' @
     [0x30FB, 0x91D1, 0x30FB, 0x91D1, 0x5229, 0x3068, 0x3001, 0x30DE] @
     [0x30B0, 0x30CB, 0x30D5, 0x30A3, 0x30BB, 0x30F3, 0x30C8, 0x30BB] @
     [0x30D6, 0x30F3, 0x306E, 0x30C6, 0x30C3, 0x30AF, 0x611F, 0x3092] @
     [0x60F3, 0x8D77, 0x3055, 0x305B, 0x308B, 0x5B89, 0x5168, 0x30FB] @
     [0x77E5, 0x7684, 0x306A, 0x30A4, 0x30E1, 0x30FC, 0x30B8, 0x3002] @
     [0x30DF, 0x30CB, 0x30DE, 0x30EB, 0x3067, 0x54C1, 0x306E, 0x3042] @
     [0x308B, 0x9752, 0x7CFB, 0x3002, 0x30C6, 0x30AD, 0x30B9, 0x30C8] @
     [0x8981, 0x7D20, 0x3084, 0x30ED, 0x30B4, 0x306F, 0x5165, 0x308C] @
     [0x306A, 0x3044, 0x3002]"

text \<open>\<^verbatim>\<open>f"{k: <12}: {v}"\<close> and \<^verbatim>\<open>f"{k: <5}: {v}"\<close>: one drawn line per instrument.\<close>

definition canvas_line :: "world \<Rightarrow> nat \<Rightarrow> pystr \<times> pyfloat option \<Rightarrow> pystr" where
  "canvas_line w n kv = ljust n (fst kv) @ ascii '': '' @ opt_str w (snd kv)"

text \<open>The strings drawn on the canvas, title first, in drawing order.\<close>

definition canvas_macro_header :: pystr where
  "canvas_macro_header = [0x25A0] @ ascii '' '' @ [0x4E3B, 0x8981, 0x6307, 0x6A19]"

definition canvas_m7_header :: pystr where
  "canvas_m7_header = [0x25A0] @ ascii '' Magnificent 7''"

definition canvas_texts ::
  "world \<Rightarrow> (pystr \<times> pyfloat option) list \<Rightarrow> (pystr \<times> pyfloat option) list \<Rightarrow> pystr list" where
  "canvas_texts w dash m7 =
     [ascii ''Market Dashboard'', strftime_canvas (now_jst (ext w) AtCanvas), canvas_macro_header]
     @ map (canvas_line w 12) dash
     @ [canvas_m7_header]
     @ map (canvas_line w 5) m7"

text \<open>
  The Matplotlib part of \<^verbatim>\<open>generate_feature_image\<close> (source lines 240 to 262). It is not
  inside any \<^verbatim>\<open>try\<close>: what the render raises leaves the function.
\<close>

definition rendered_path :: "world \<Rightarrow> pystr" where
  "rendered_path w =
     path_join (cwd (ext w))
       (ascii ''feature_'' @ strftime_file (now_jst (ext w) AtRenderedFile) @ ascii ''.png'')"

definition render_dashboard :: "world \<Rightarrow> (pyexn + pystr option) \<times> event list" where
  "render_dashboard w =
     (case market_dashboard w ForImage of (dash, ev1) \<Rightarrow>
      case m7_prices w ForImage of (m7, ev2) \<Rightarrow>
        (let out = rendered_path w;
             texts = canvas_texts w dash m7
         in case savefig (ext w) out texts of
              Some e \<Rightarrow> (Inl e, ev1 @ ev2 @ [SaveFig out texts])
            | None \<Rightarrow> (Inr (Some out), ev1 @ ev2 @ [SaveFig out texts])))"

definition image_failed :: "pyexn \<Rightarrow> event list" where
  "image_failed e =
     log (ascii ''OpenAI'' @ [0x753B, 0x50CF] @ ascii '' '' @ [0x5931, 0x6557] @ ascii '': ''
          @ exn_str e)"

definition generate_feature_image :: "world \<Rightarrow> (pyexn + pystr option) \<times> event list" where
  "generate_feature_image w =
     (if client w then
        (case images (ext w) image_prompt of
           ImgRaises e \<Rightarrow>
             (case render_dashboard w of (r, ev) \<Rightarrow>
                (r, ImagesGenerate image_prompt # image_failed e @ ev))
         | ImgNoPayload \<Rightarrow>
             (case render_dashboard w of (r, ev) \<Rightarrow> (r, ImagesGenerate image_prompt # ev))
         | ImgPayload (Inl e) \<Rightarrow>
             (case render_dashboard w of (r, ev) \<Rightarrow>
                (r, ImagesGenerate image_prompt # image_failed e @ ev))
         | ImgPayload (Inr png_bytes) \<Rightarrow>
             (let out = path_join (cwd (ext w))
                          (ascii ''feature_'' @ strftime_file (now_jst (ext w) AtGeneratedFile)
                           @ ascii ''.png'')
              in case write_file (ext w) out png_bytes of
                   Some e \<Rightarrow>
                     (case render_dashboard w of (r, ev) \<Rightarrow>
                        (r, ImagesGenerate image_prompt # WriteFile out # image_failed e @ ev))
                 | None \<Rightarrow> (Inr (Some out), [ImagesGenerate image_prompt, WriteFile out])))
      else render_dashboard w)"

section \<open>WordPress\<close>

definition tag_exception :: "pyexn \<Rightarrow> event list" where
  "tag_exception e =
     log ([0x30BF, 0x30B0] @ ascii ''ID'' @ [0x53D6, 0x5F97] @ ascii ''/'' @ [0x4F5C, 0x6210]
          @ ascii '' '' @ [0x4F8B, 0x5916] @ ascii '': '' @ exn_str e)"

text \<open>
  The second half of \<^verbatim>\<open>wp_tag_id_by_name\<close>: the creation attempt, reached when the search
  found nothing. \<open>k\<close> is the position of the tag in the configured list.
\<close>

definition wp_tag_create :: "world \<Rightarrow> nat \<Rightarrow> pystr \<Rightarrow> int option \<times> event list" where
  "wp_tag_create w k name =
     (let post = Post (WP_TAGS_URL w) (JsonBody (JDict [(ascii ''name'', JStr name)]))
      in case tag_create (ext w) k name of
           Raises e \<Rightarrow> (None, post # tag_exception e)
         | Reply st js txt \<Rightarrow>
             if st = 200 \<or> st = 201 then
               (case js of
                  Inl e \<Rightarrow> (None, post # tag_exception e)
                | Inr j \<Rightarrow>
                    (case item_id w j of
                       Inl e \<Rightarrow> (None, post # tag_exception e)
                     | Inr v \<Rightarrow>
                         (case py_int w v of
                            Inl e \<Rightarrow> (None, post # tag_exception e)
                          | Inr i \<Rightarrow> (Some i, [post]))))
             else
               (None, post #
                  log ([0x30BF, 0x30B0, 0x4F5C, 0x6210, 0x5931, 0x6557] @ ascii '': '' @ name
                       @ ascii '' ['' @ py_dec st @ ascii ''] '' @ take 120 txt)))"

definition wp_tag_id_by_name :: "world \<Rightarrow> nat \<Rightarrow> pystr \<Rightarrow> int option \<times> event list" where
  "wp_tag_id_by_name w k name =
     (let get = Get (WP_TAGS_URL w) [(ascii ''search'', name)]
      in case tag_search (ext w) k name of
           Raises e \<Rightarrow> (None, get # tag_exception e)
         | Reply st js txt \<Rightarrow>
             if st = 200 then
               (case js of
                  Inl e \<Rightarrow> (None, get # tag_exception e)
                | Inr (JList (x # xs)) \<Rightarrow>
                    (case item_id w x of
                       Inl e \<Rightarrow> (None, get # tag_exception e)
                     | Inr v \<Rightarrow>
                         (case py_int w v of
                            Inl e \<Rightarrow> (None, get # tag_exception e)
                          | Inr i \<Rightarrow> (Some i, [get])))
                | Inr _ \<Rightarrow>
                    (case wp_tag_create w k name of (r, ev) \<Rightarrow> (r, get # ev)))
             else (case wp_tag_create w k name of (r, ev) \<Rightarrow> (r, get # ev)))"

definition media_exception :: "pyexn \<Rightarrow> event list" where
  "media_exception e =
     log (ascii ''WP '' @ [0x753B, 0x50CF, 0x30A2, 0x30C3, 0x30D7, 0x4F8B, 0x5916] @ ascii '': ''
          @ exn_str e)"

definition upload_media :: "world \<Rightarrow> pystr \<Rightarrow> int option \<times> event list" where
  "upload_media w filepath =
     (let fname = basename filepath;
          post = Post (WP_MEDIA_URL w) (FilesBody fname filepath)
      in case open_read (ext w) filepath of
           Some e \<Rightarrow> (None, OpenRead filepath # media_exception e)
         | None \<Rightarrow>
             (case media_post (ext w) filepath of
                Raises e \<Rightarrow> (None, OpenRead filepath # post # media_exception e)
              | Reply st js txt \<Rightarrow>
                  if st = 200 \<or> st = 201 then
                    (case js of
                       Inl e \<Rightarrow> (None, OpenRead filepath # post # media_exception e)
                     | Inr (JDict kvs) \<Rightarrow>
                         (case py_int w (dict_get kvs (ascii ''id'') JNull) of
                            Inl e \<Rightarrow> (None, OpenRead filepath # post # media_exception e)
                          | Inr mid \<Rightarrow>
                              (Some mid, OpenRead filepath # post #
                                 log (ascii ''WP ''
                                      @ [0x753B, 0x50CF, 0x30A2, 0x30C3, 0x30D7, 0x6210, 0x529F]
                                      @ ascii '': id='' @ int_str mid)))
                     | Inr j \<Rightarrow>
                         (None, OpenRead filepath # post # media_exception (bad_access (lib w) j)))
                  else
                    (None, OpenRead filepath # post #
                       log (ascii ''WP '' @ [0x753B, 0x50CF, 0x30A2, 0x30C3, 0x30D7, 0x5931, 0x6557]
                            @ ascii '': ['' @ py_dec st @ ascii ''] '' @ take 200 txt))))"

definition post_exists :: "world \<Rightarrow> pystr \<Rightarrow> bool \<times> event list" where
  "post_exists w slug =
     (let get = Get (WP_POSTS_URL w) [(ascii ''slug'', slug)]
      in case posts_query (ext w) slug of
           Raises e \<Rightarrow>
             (False, get #
                log ([0x65E2, 0x5B58, 0x30C1, 0x30A7, 0x30C3, 0x30AF, 0x4F8B, 0x5916] @ ascii '': ''
                     @ exn_str e))
         | Reply st js txt \<Rightarrow>
             if st = 200 then
               (case js of
                  Inl e \<Rightarrow>
                    (False, get #
                       log ([0x65E2, 0x5B58, 0x30C1, 0x30A7, 0x30C3, 0x30AF, 0x4F8B, 0x5916]
                            @ ascii '': '' @ exn_str e))
                | Inr (JList xs) \<Rightarrow> (length xs > 0, [get])
                | Inr _ \<Rightarrow> (False, [get]))
             else (False, [get]))"

definition post_exception :: "pyexn \<Rightarrow> event list" where
  "post_exception e = log ([0x6295, 0x7A3F, 0x4F8B, 0x5916] @ ascii '': '' @ exn_str e)"

text \<open>
  The request body of \<^verbatim>\<open>post_to_wp\<close>. The category list is built outside the \<^verbatim>\<open>try\<close>, so
  an \<^verbatim>\<open>int()\<close> that raises on a string \<^verbatim>\<open>isdigit()\<close> accepts leaves the function.
\<close>

definition post_data ::
  "world \<Rightarrow> pystr \<Rightarrow> pystr \<Rightarrow> pystr \<Rightarrow> int option \<Rightarrow> int list \<Rightarrow> pyexn + json" where
  "post_data w title slug content_md featured_media tag_ids =
     (case (if str_isdigit (lib w) (WP_CATEGORY_ID (cfg w))
            then (case str_int (lib w) (WP_CATEGORY_ID (cfg w)) of
                    Inl e \<Rightarrow> Inl e | Inr c \<Rightarrow> Inr [JInt c])
            else Inr []) of
        Inl e \<Rightarrow> Inl e
      | Inr categories \<Rightarrow>
          Inr (JDict
                 ([(ascii ''title'', JStr title),
                   (ascii ''slug'', JStr slug),
                   (ascii ''content'', JStr content_md),
                   (ascii ''status'', JStr (POST_STATUS (cfg w))),
                   (ascii ''categories'', JList categories),
                   (ascii ''tags'', JList (map JInt tag_ids))]
                  @ (case featured_media of
                       None \<Rightarrow> []
                     | Some m \<Rightarrow> if m \<noteq> 0 then [(ascii ''featured_media'', JInt m)] else []))))"

text \<open>\<^verbatim>\<open>j.get("link") or j.get("guid",{}).get("rendered","")\<close>.\<close>

definition post_link :: "world \<Rightarrow> json \<Rightarrow> pyexn + json" where
  "post_link w j =
     (case j of
        JDict kvs \<Rightarrow>
          if truthy (dict_get kvs (ascii ''link'') JNull)
          then Inr (dict_get kvs (ascii ''link'') JNull)
          else (case dict_get kvs (ascii ''guid'') (JDict []) of
                  JDict g \<Rightarrow> Inr (dict_get g (ascii ''rendered'') (JStr []))
                | j' \<Rightarrow> Inl (bad_access (lib w) j'))
      | _ \<Rightarrow> Inl (bad_access (lib w) j))"

definition post_to_wp ::
  "world \<Rightarrow> pystr \<Rightarrow> pystr \<Rightarrow> pystr \<Rightarrow> int option \<Rightarrow> int list
     \<Rightarrow> (pyexn + json) \<times> event list" where
  "post_to_wp w title slug content_md featured_media tag_ids =
     (case post_data w title slug content_md featured_media tag_ids of
        Inl e \<Rightarrow> (Inl e, [])
      | Inr data \<Rightarrow>
          (let post = Post (WP_POSTS_URL w) (JsonBody data)
           in case post_create (ext w) data of
                Raises e \<Rightarrow> (Inr JNull, post # post_exception e)
              | Reply st js txt \<Rightarrow>
                  if st = 200 \<or> st = 201 then
                    (case js of
                       Inl e \<Rightarrow> (Inr JNull, post # post_exception e)
                     | Inr j \<Rightarrow>
                         (case post_link w j of
                            Inl e \<Rightarrow> (Inr JNull, post # post_exception e)
                          | Inr url \<Rightarrow>
                              (Inr url, post #
                                 log ([0x6295, 0x7A3F, 0x6210, 0x529F] @ ascii '': ''
                                      @ py_str w url))))
                  else
                    (Inr JNull, post #
                       log ([0x6295, 0x7A3F, 0x5931, 0x6557] @ ascii '': ['' @ py_dec st
                            @ ascii ''] '' @ take 300 txt))))"

section \<open>Main\<close>

text \<open>\<^verbatim>\<open>[s.strip() for s in WP_TAGS_RAW.split(",") if s.strip()]\<close>.\<close>

definition tag_names :: "world \<Rightarrow> pystr list" where
  "tag_names w =
     (if WP_TAGS_RAW (cfg w) = [] then []
      else filter (\<lambda>s. s \<noteq> []) (map py_strip (split_on 44 (WP_TAGS_RAW (cfg w)))))"

fun tag_loop :: "world \<Rightarrow> nat \<Rightarrow> pystr list \<Rightarrow> int list \<times> event list" where
  "tag_loop w k [] = ([], [])"
| "tag_loop w k (nm # nms) =
     (case wp_tag_id_by_name w k nm of (tid, ev) \<Rightarrow>
        (case tag_loop w (Suc k) nms of (ids, ev') \<Rightarrow>
           ((case tid of None \<Rightarrow> ids | Some i \<Rightarrow> if i \<noteq> 0 then i # ids else ids), ev @ ev')))"

definition run_title :: "world \<Rightarrow> pystr" where
  "run_title w =
     strftime_date_ja (now_jst (ext w) AtMain) @ ascii '' ''
     @ [0x7C73, 0x56FD, 0x682A, 0x30FB, 0x4EEE, 0x60F3, 0x901A, 0x8CA8]
     @ [0x306E, 0x5E02, 0x5834, 0x30EC, 0x30DD, 0x30FC, 0x30C8]"

definition run_slug :: "world \<Rightarrow> pystr" where
  "run_slug w = SLUG_PREFIX (cfg w) @ ascii ''-'' @ strftime_slug (now_jst (ext w) AtMain)"

definition task_end :: "event list" where
  "task_end =
     log (ascii ''=== '' @ [0x81EA, 0x52D5, 0x6295, 0x7A3F, 0x30BF, 0x30B9, 0x30AF, 0x7D42, 0x4E86]
          @ ascii '' ==='')"

text \<open>
  \<^verbatim>\<open>main\<close> after the duplicate check (source lines 344 to 365). \<open>Inl e\<close> is an exception
  that nothing catches: the process ends with a traceback.
\<close>

definition main_publish :: "world \<Rightarrow> pystr \<Rightarrow> pystr \<Rightarrow> (pyexn + unit) \<times> event list" where
  "main_publish w title slug =
     (let ev0 = log ([0x672C, 0x6587, 0x751F, 0x6210] @ ascii '' ''
                     @ [0x30D5, 0x30A7, 0x30FC, 0x30BA, 0x958B, 0x59CB])
      in case build_article w of
           (Inl e, ev1) \<Rightarrow> (Inl e, ev0 @ ev1)
         | (Inr content_md, ev1) \<Rightarrow>
             (case tag_loop w 0 (tag_names w) of (tag_ids, ev2) \<Rightarrow>
              case generate_feature_image w of
                (Inl e, ev3) \<Rightarrow> (Inl e, ev0 @ ev1 @ ev2 @ ev3)
              | (Inr img_path, ev3) \<Rightarrow>
                  (case (case img_path of
                           None \<Rightarrow> (None, [])
                         | Some p \<Rightarrow> if p \<noteq> [] then upload_media w p else (None, [])) of
                     (fm_id, ev4) \<Rightarrow>
                       (case post_to_wp w title slug content_md fm_id tag_ids of
                          (Inl e, ev5) \<Rightarrow> (Inl e, ev0 @ ev1 @ ev2 @ ev3 @ ev4 @ ev5)
                        | (Inr url, ev5) \<Rightarrow>
                            (Inr (),
                             ev0 @ ev1 @ ev2 @ ev3 @ ev4 @ ev5
                             @ (if truthy url
                                then log ([0x5B8C, 0x4E86] @ ascii '': '' @ py_str w url)
                                else [])
                             @ task_end)))))"

definition task_start :: "event list" where
  "task_start =
     log (ascii ''=== '' @ [0x81EA, 0x52D5, 0x6295, 0x7A3F, 0x30BF, 0x30B9, 0x30AF, 0x958B, 0x59CB]
          @ ascii '' ==='')"

definition config_missing :: "event list" where
  "config_missing =
     log (ascii ''WP '' @ [0x8A2D, 0x5B9A, 0x4E0D, 0x8DB3, 0x3002]
          @ ascii ''WP_BASE_URL, WP_USERNAME, WP_APP_PASSWORD ''
          @ [0x3092, 0x78BA, 0x8A8D, 0x3057, 0x3066, 0x304F, 0x3060, 0x3055, 0x3044, 0x3002])"

definition duplicate_found :: "event list" where
  "duplicate_found =
     log ([0x540C, 0x30B9, 0x30E9, 0x30C3, 0x30B0, 0x8A18, 0x4E8B, 0x304C]
          @ [0x3059, 0x3067, 0x306B, 0x5B58, 0x5728, 0x3057, 0x307E, 0x3059]
          @ [0x3002, 0x7D42, 0x4E86, 0x3002])"

definition main :: "world \<Rightarrow> (pyexn + unit) \<times> event list" where
  "main w =
     (if \<not> (WP_BASE_URL (cfg w) \<noteq> [] \<and> WP_USERNAME (cfg w) \<noteq> []
             \<and> WP_APP_PASSWORD (cfg w) \<noteq> [])
      then (Inr (), task_start @ config_missing)
      else
        (case post_exists w (run_slug w) of
           (True, ev1) \<Rightarrow> (Inr (), task_start @ ev1 @ duplicate_found)
         | (False, ev1) \<Rightarrow>
             (case main_publish w (run_title w) (run_slug w) of
                (r, ev2) \<Rightarrow> (r, task_start @ ev1 @ ev2))))"

section \<open>The specification's reading of a price request\<close>

text \<open>
  Follows the spec's words (section 4.1): the most recent daily close of the ticker, absent
  on an empty result set or on any failure of the request. The code rounds the close to two
  decimals, which is \<open>round2\<close> here.
\<close>

definition spec_latest_close :: "world \<Rightarrow> batch \<Rightarrow> pystr \<Rightarrow> pyfloat option" where
  "spec_latest_close w b ticker =
     (case yf (ext w) b ticker of
        YfRaises e \<Rightarrow> None
      | YfData closes \<Rightarrow> if closes = [] then None else Some (round2 (lib w) (last closes)))"

section \<open>Lines of a text\<close>

text \<open>
  What \<^verbatim>\<open>textwrap.dedent\<close> does to a text when its margin is empty: lines of spaces and tabs
  only are emptied, everything else is kept. \<open>no_blank_only_line\<close> says that a text has no
  such line.
\<close>

definition nonblank :: "nat \<Rightarrow> bool" where
  "nonblank c = (\<not> is_blank c)"

definition blank_lines :: "pystr \<Rightarrow> pystr" where
  "blank_lines s = join_with [10] (map blank_line (split_on 10 s))"

definition no_blank_only_line :: "pystr \<Rightarrow> bool" where
  "no_blank_only_line s = list_all (\<lambda>l. l = [] \<or> list_ex nonblank l) (split_on 10 s)"

text \<open>
  The template between its line breaks: the middle part without its first line end and its
  last indentation, the tail without its first line break and its last line.
\<close>

definition middle_body :: pystr where
  "middle_body = take 95 (drop 2 template_middle)"

definition tail_body :: pystr where
  "tail_body = take 573 (drop 1 template_tail)"

text \<open>
  Follows the claim's words: the fixed template with the context block spliced into its
  second section verbatim. The fixed text is the template as the fallback emits it: without
  the line break and indentation before its first heading and without its last line, with the
  run's date in the first heading.
\<close>

definition spliced_verbatim :: "world \<Rightarrow> pystr \<Rightarrow> pystr" where
  "spliced_verbatim w ctx =
     drop 5 template_head @ strftime_date_ja (now_jst (ext w) AtFallbackText)
     @ template_middle @ ctx @ take 574 template_tail"

section \<open>Concrete runs\<close>

text \<open>
  A complete configuration with the CMS credentials and a news key but no generative key, and
  services that answer: the volatility index request raises, one equity has no rows, the news
  provider refuses with 403, the CMS has no post with the slug and accepts everything.
\<close>

definition demo_cfg :: config where
  "demo_cfg =
     \<lparr>WP_BASE_URL = ascii ''https://blog.example'',
      WP_API_ENDPOINT = ascii ''/wp-json/wp/v2/posts'',
      WP_USERNAME = ascii ''bot'',
      WP_APP_PASSWORD = ascii ''secret'',
      WP_CATEGORY_ID = ascii ''1'',
      POST_STATUS = ascii ''publish'',
      WP_TAGS_RAW = ascii ''VIX,WTI'',
      FINNHUB_API_KEY = ascii ''key'',
      OPENAI_API_KEY = [],
      SLUG_PREFIX = ascii ''market-report'',
      openai_ok = True,
      openai_ctor_ok = True\<rparr>"

definition demo_lib :: pylib where
  "demo_lib =
     \<lparr>round2 = (\<lambda>f. f),
      float_str = (\<lambda>f. case f of Finite m e \<Rightarrow> int_str m @ ascii ''.0'' | _ \<Rightarrow> ascii ''nan''),
      json_str = (\<lambda>j. ascii ''None''),
      json_int = (\<lambda>j. Inl (PyExn (ascii ''int() argument''))),
      bad_access = (\<lambda>j. PyExn (ascii ''no such attribute'')),
      str_isdigit = (\<lambda>s. s \<noteq> [] \<and> list_all (\<lambda>c. 48 \<le> c \<and> c \<le> 57) s),
      str_int = (\<lambda>s. Inr 1)\<rparr>"

definition demo_ext :: collaborators where
  "demo_ext =
     \<lparr>yf = (\<lambda>b t. if t = ascii ''^VIX'' then YfRaises (PyExn (ascii ''timed out''))
                   else if t = ascii ''MSFT'' then YfData []
                   else YfData [Finite 71 0, Finite 72 0]),
      utc_dates = (\<lambda>t. (ascii ''2025-01-01'', ascii ''2025-01-05'')),
      news_get = (\<lambda>url. Reply 403 (Inl (PyExn (ascii ''not JSON''))) (ascii ''forbidden'')),
      now_jst = (\<lambda>s. \<lparr>dt_year = 2025, dt_month = 1, dt_day = 5, dt_hour = 9, dt_minute = 30,
                        dt_second = 0\<rparr>),
      chat = (\<lambda>s u. ChatRaises (PyExn (ascii ''unavailable''))),
      images = (\<lambda>p. ImgNoPayload),
      cwd = ascii ''/srv/app'',
      write_file = (\<lambda>p bs. None),
      savefig = (\<lambda>p ts. None),
      posts_query = (\<lambda>slug. Reply 200 (Inr (JList [])) (ascii ''[]'')),
      tag_search = (\<lambda>k nm. Reply 200 (Inr (JList [JDict [(ascii ''id'', JInt 3)]])) []),
      tag_create = (\<lambda>k nm. Reply 201 (Inr (JDict [(ascii ''id'', JInt 4)])) []),
      open_read = (\<lambda>p. None),
      media_post = (\<lambda>p. Reply 201 (Inr (JDict [(ascii ''id'', JInt 9)])) []),
      post_create =
        (\<lambda>d. Reply 201 (Inr (JDict [(ascii ''link'', JStr (ascii ''https://blog.example/p''))])) [])\<rparr>"

definition demo_world :: world where
  "demo_world = \<lparr>cfg = demo_cfg, lib = demo_lib, ext = demo_ext\<rparr>"

text \<open>The same run on a host where the Matplotlib render cannot write its file.\<close>

definition unwritable_world :: world where
  "unwritable_world =
     demo_world\<lparr>ext := demo_ext\<lparr>savefig := (\<lambda>p ts. Some (PyExn (ascii ''Permission denied'')))\<rparr>\<rparr>"

text \<open>The same run one day later.\<close>

definition next_day_world :: world where
  "next_day_world =
     demo_world\<lparr>ext := demo_ext\<lparr>now_jst :=
       (\<lambda>s. \<lparr>dt_year = 2025, dt_month = 1, dt_day = 6, dt_hour = 9, dt_minute = 30,
              dt_second = 0\<rparr>)\<rparr>\<rparr>"

text \<open>Runs without the news key, and with a news provider that answers an empty list.\<close>

definition no_key_world :: world where
  "no_key_world = demo_world\<lparr>cfg := demo_cfg\<lparr>FINNHUB_API_KEY := []\<rparr>\<rparr>"

definition empty_news_world :: world where
  "empty_news_world =
     demo_world\<lparr>ext := demo_ext\<lparr>news_get := (\<lambda>url. Reply 200 (Inr (JList [])) (ascii ''[]''))\<rparr>\<rparr>"

definition long_news_world :: world where
  "long_news_world =
     demo_world\<lparr>ext := demo_ext\<lparr>news_get :=
       (\<lambda>url. Reply 200 (Inr (JList [JInt 1, JInt 2, JInt 3])) [])\<rparr>\<rparr>"

text \<open>A news provider whose only headline holds a line of one space.\<close>

definition blank_headline_world :: world where
  "blank_headline_world =
     demo_world\<lparr>ext := demo_ext\<lparr>news_get :=
       (\<lambda>url. Reply 200
                 (Inr (JList
                    [JDict [(ascii ''headline'', JStr (ascii ''Up'' @ [10, 32, 10] @ ascii ''Down'')),
                            (ascii ''url'', JStr (ascii ''https://n.example/1''))]]))
                 [])\<rparr>\<rparr>"

text \<open>Runs without the CMS password, with a duplicate at the CMS, and with a failing check.\<close>

definition no_password_world :: world where
  "no_password_world = demo_world\<lparr>cfg := demo_cfg\<lparr>WP_APP_PASSWORD := []\<rparr>\<rparr>"

definition duplicate_world :: world where
  "duplicate_world =
     demo_world\<lparr>ext := demo_ext\<lparr>posts_query :=
       (\<lambda>slug. Reply 200 (Inr (JList [JDict [(ascii ''id'', JInt 7)]])) [])\<rparr>\<rparr>"




text \<open>Event classes used in the statements below.\<close>

fun is_log :: "event \<Rightarrow> bool" where
  "is_log (Log _) = True"
| "is_log _ = False"

text \<open>The tickers of the price requests and the addresses of the GET requests in a trace.\<close>

definition price_requests :: "event list \<Rightarrow> pystr list" where
  "price_requests evs = concat (map (\<lambda>e. case e of YfHistory t \<Rightarrow> [t] | _ \<Rightarrow> []) evs)"

definition get_requests :: "event list \<Rightarrow> pystr list" where
  "get_requests evs = concat (map (\<lambda>e. case e of Get url params \<Rightarrow> [url] | _ \<Rightarrow> []) evs)"

text \<open>
  A CMS write in the sense of the duplicate-check property: any POST (tag creation, media
  upload, post creation) and the tag search that precedes a tag creation.
\<close>

fun is_cms_write :: "event \<Rightarrow> bool" where
  "is_cms_write (Post _ _) = True"
| "is_cms_write (Get _ params) = (map fst params = [ascii ''search''])"
| "is_cms_write _ = False"

section \<open>Properties\<close>

subsection \<open>Collectors\<close>

lemma fst_price_loop_Cons:
  "fst (price_loop w b ((n, t) # rest) out) =
   fst (price_loop w b rest (AList.update n (fst (price_of w b t)) out))"
  by (simp split: prod.splits)

lemma price_loop_other:
  "name \<notin> fst ` set pairs \<Longrightarrow> map_of (fst (price_loop w b pairs out)) name = map_of out name"
proof (induction pairs arbitrary: out)
  case Nil
  then show ?case by simp
next
  case (Cons p pairs)
  obtain n t where p: "p = (n, t)" by (cases p)
  with Cons.prems have "name \<noteq> n" "name \<notin> fst ` set pairs" by auto
  with Cons.IH show ?case unfolding p fst_price_loop_Cons
    by (simp add: update_conv')
qed

lemma price_loop_lookup:
  "distinct (map fst pairs) \<Longrightarrow> (name, tkr) \<in> set pairs \<Longrightarrow>
   map_of (fst (price_loop w b pairs out)) name = Some (fst (price_of w b tkr))"
proof (induction pairs arbitrary: out)
  case Nil
  then show ?case by simp
next
  case (Cons p pairs)
  obtain n t where p: "p = (n, t)" by (cases p)
  show ?case
  proof (cases "(name, tkr) = p")
    case True
    with Cons.prems p have "name \<notin> fst ` set pairs" by auto
    from price_loop_other[OF this] True p show ?thesis
      unfolding p fst_price_loop_Cons by (simp add: update_conv')
  next
    case False
    with Cons.prems have "(name, tkr) \<in> set pairs" "distinct (map fst pairs)" by auto
    from Cons.IH[OF this(2) this(1)] p show ?thesis
      unfolding p fst_price_loop_Cons by simp
  qed
qed

lemma price_loop_keys:
  "distinct (map fst pairs) \<Longrightarrow> fst ` set pairs \<inter> fst ` set out = {} \<Longrightarrow>
   map fst (fst (price_loop w b pairs out)) = map fst out @ map fst pairs"
proof (induction pairs arbitrary: out)
  case Nil
  then show ?case by simp
next
  case (Cons p pairs)
  obtain n t where p: "p = (n, t)" by (cases p)
  from Cons.prems p have n: "n \<notin> fst ` set out" by auto
  have upd: "AList.update n v out = out @ [(n, v)]" for v
    using n by (induction out) auto
  from Cons.prems p have "distinct (map fst pairs)"
    "fst ` set pairs \<inter> fst ` set (out @ [(n, fst (price_of w b t))]) = {}" by auto
  from Cons.IH[OF this] show ?case unfolding p fst_price_loop_Cons upd by simp
qed

lemma fst_price_of: "fst (price_of w b t) = spec_latest_close w b t"
  by (simp add: price_of_def spec_latest_close_def split: yf_reply.splits)

lemma distinct_tickers: "distinct (map fst tickers)"
  by (simp add: tickers_def ascii_def)

lemma distinct_names: "distinct names"
  by (simp add: names_def ascii_def)

lemma cfg_demo: "cfg demo_world = demo_cfg" "lib demo_world = demo_lib" "ext demo_world = demo_ext"
  by (simp_all add: demo_world_def)

lemma demo_yf: "yf demo_ext = (\<lambda>b t. if t = ascii ''^VIX'' then YfRaises (PyExn (ascii ''timed out''))
                   else if t = ascii ''MSFT'' then YfData []
                   else YfData [Finite 71 0, Finite 72 0])"
  by (simp add: demo_ext_def)

lemma demo_round2: "round2 demo_lib = (\<lambda>f. f)"
  by (simp add: demo_lib_def)

text \<open>
  C5. For every list of (label, ticker) pairs with distinct labels, the batch maps each label
  to the outcome of its own ticker's request: absent when that request raised or returned no
  rows, the latest daily close (rounded to two decimals) otherwise. No label is dropped and no
  request's failure changes another label's value; the same holds for \<open>market_dashboard\<close>
  and \<open>m7_prices\<close>. The batch has no exceptional result: \<open>price_of\<close> catches everything.
\<close>

theorem price_batch_isolation:
  "(distinct (map fst pairs) \<and> (name, tkr) \<in> set pairs \<longrightarrow>
      map_of (fst (price_loop w b pairs [])) name = Some (spec_latest_close w b tkr))
   \<and> (distinct (map fst pairs) \<longrightarrow> map fst (fst (price_loop w b pairs [])) = map fst pairs)
   \<and> map fst (fst (market_dashboard w b)) = map fst tickers
   \<and> (\<forall>(name, tkr) \<in> set tickers.
        map_of (fst (market_dashboard w b)) name = Some (spec_latest_close w b tkr))
   \<and> map fst (fst (m7_prices w b)) = names
   \<and> (\<forall>t \<in> set names. map_of (fst (m7_prices w b)) t = Some (spec_latest_close w b t))"
proof -
  have d: "distinct (map fst (map (\<lambda>t. (t, t)) names))"
    using distinct_names by (simp add: comp_def)
  have 1: "distinct (map fst pairs) \<and> (name, tkr) \<in> set pairs \<longrightarrow>
      map_of (fst (price_loop w b pairs [])) name = Some (spec_latest_close w b tkr)"
    using price_loop_lookup[of pairs name tkr w b "[]"] by (simp add: fst_price_of)
  have 2: "distinct (map fst pairs) \<longrightarrow> map fst (fst (price_loop w b pairs [])) = map fst pairs"
    using price_loop_keys[of pairs "[]" w b] by simp
  have 3: "map fst (fst (market_dashboard w b)) = map fst tickers"
    unfolding market_dashboard_def using price_loop_keys[OF distinct_tickers, of "[]" w b] by simp
  have 4: "\<forall>(name, tkr) \<in> set tickers.
        map_of (fst (market_dashboard w b)) name = Some (spec_latest_close w b tkr)"
    unfolding market_dashboard_def
    using price_loop_lookup[OF distinct_tickers, of _ _ w b "[]"] by (auto simp: fst_price_of)
  have 5: "map fst (fst (m7_prices w b)) = names"
    unfolding m7_prices_def using price_loop_keys[OF d, of "[]" w b] by (simp add: comp_def)
  have 6: "\<forall>t \<in> set names. map_of (fst (m7_prices w b)) t = Some (spec_latest_close w b t)"
    unfolding m7_prices_def
    using price_loop_lookup[OF d, of _ _ w b "[]"] by (auto simp: fst_price_of)
  from 1 2 3 4 5 6 show ?thesis by blast
qed

theorem price_batch_isolation_witness:
  "map_of (fst (price_loop demo_world ForContext [(ascii ''VIX'', ascii ''^VIX'')] []))
       (ascii ''VIX'') = Some None
   \<and> map_of (fst (market_dashboard demo_world ForContext)) (ascii ''VIX'') = Some None
   \<and> map_of (fst (market_dashboard demo_world ForContext)) [0x91D1, 0x5148, 0x7269]
       = Some (Some (Finite 72 0))
   \<and> map_of (fst (m7_prices demo_world ForImage)) (ascii ''MSFT'') = Some None
   \<and> map_of (fst (m7_prices demo_world ForImage)) (ascii ''TSLA'') = Some (Some (Finite 72 0))"
  using price_batch_isolation[of "[(ascii ''VIX'', ascii ''^VIX'')]" "ascii ''VIX''"
          "ascii ''^VIX''" demo_world ForContext]
        price_batch_isolation[of "[]" "[]" "[]" demo_world ForImage]
  by (simp add: tickers_def names_def spec_latest_close_def cfg_demo demo_yf demo_round2
        ascii_def del: price_loop.simps)

lemma finnhub_len: "length (fst (finnhub_company_news w t)) \<le> 2"
  by (auto simp: finnhub_company_news_def split: prod.splits json.splits)

lemma no_key_fields: "cfg no_key_world = demo_cfg\<lparr>FINNHUB_API_KEY := []\<rparr>"
  "lib no_key_world = demo_lib" "ext no_key_world = demo_ext"
  by (simp_all add: no_key_world_def demo_world_def)

lemma long_news_fields: "cfg long_news_world = demo_cfg" "lib long_news_world = demo_lib"
  "ext long_news_world = demo_ext\<lparr>news_get :=
       (\<lambda>url. Reply 200 (Inr (JList [JInt 1, JInt 2, JInt 3])) [])\<rparr>"
  by (simp_all add: long_news_world_def demo_world_def)

lemma empty_news_fields: "cfg empty_news_world = demo_cfg" "lib empty_news_world = demo_lib"
  "ext empty_news_world = demo_ext\<lparr>news_get := (\<lambda>url. Reply 200 (Inr (JList [])) (ascii ''[]''))\<rparr>"
  by (simp_all add: empty_news_world_def demo_world_def)

lemma demo_news_get:
  "news_get demo_ext = (\<lambda>url. Reply 403 (Inl (PyExn (ascii ''not JSON''))) (ascii ''forbidden''))"
  by (simp add: demo_ext_def)

lemma demo_key: "FINNHUB_API_KEY demo_cfg = ascii ''key''"
  by (simp add: demo_cfg_def)

text \<open>
  C4. For every ticker the news digest has at most two items. A missing API key, a request
  that raises, any status other than 200, a body that is not JSON and a payload that is not a
  list (an error object included) each give the empty list, so a missing key and a provider
  error return the same value; a list payload gives its first two items. The function has no
  exceptional result: the only statements that can raise are inside \<open>http_json\<close>, which
  catches everything.
\<close>

theorem finnhub_company_news_digest:
  "length (fst (finnhub_company_news w t)) \<le> 2
   \<and> (FINNHUB_API_KEY (cfg w) = [] \<longrightarrow> fst (finnhub_company_news w t) = [])
   \<and> (\<forall>e. news_get (ext w) (news_url w t) = Raises e
          \<longrightarrow> fst (finnhub_company_news w t) = [])
   \<and> (\<forall>st js txt. news_get (ext w) (news_url w t) = Reply st js txt \<and> st \<noteq> 200
          \<longrightarrow> fst (finnhub_company_news w t) = [])
   \<and> (\<forall>e txt. news_get (ext w) (news_url w t) = Reply 200 (Inl e) txt
          \<longrightarrow> fst (finnhub_company_news w t) = [])
   \<and> (\<forall>j txt. news_get (ext w) (news_url w t) = Reply 200 (Inr j) txt \<and> (\<forall>xs. j \<noteq> JList xs)
          \<longrightarrow> fst (finnhub_company_news w t) = [])
   \<and> (\<forall>xs txt. FINNHUB_API_KEY (cfg w) \<noteq> []
          \<and> news_get (ext w) (news_url w t) = Reply 200 (Inr (JList xs)) txt
          \<longrightarrow> fst (finnhub_company_news w t) = take 2 xs)"
proof -
  have 1: "length (fst (finnhub_company_news w t)) \<le> 2" by (rule finnhub_len)
  have 2: "FINNHUB_API_KEY (cfg w) = [] \<longrightarrow> fst (finnhub_company_news w t) = []"
    by (simp add: finnhub_company_news_def)
  have 3: "\<forall>e. news_get (ext w) (news_url w t) = Raises e
          \<longrightarrow> fst (finnhub_company_news w t) = []"
    by (auto simp: finnhub_company_news_def http_json_def)
  have 4: "\<forall>st js txt. news_get (ext w) (news_url w t) = Reply st js txt \<and> st \<noteq> 200
          \<longrightarrow> fst (finnhub_company_news w t) = []"
    by (auto simp: finnhub_company_news_def http_json_def)
  have 5: "\<forall>e txt. news_get (ext w) (news_url w t) = Reply 200 (Inl e) txt
          \<longrightarrow> fst (finnhub_company_news w t) = []"
    by (auto simp: finnhub_company_news_def http_json_def)
  have 6: "\<forall>j txt. news_get (ext w) (news_url w t) = Reply 200 (Inr j) txt \<and> (\<forall>xs. j \<noteq> JList xs)
          \<longrightarrow> fst (finnhub_company_news w t) = []"
    by (auto simp: finnhub_company_news_def http_json_def split: json.splits)
  have 7: "\<forall>xs txt. FINNHUB_API_KEY (cfg w) \<noteq> []
          \<and> news_get (ext w) (news_url w t) = Reply 200 (Inr (JList xs)) txt
          \<longrightarrow> fst (finnhub_company_news w t) = take 2 xs"
    by (auto simp: finnhub_company_news_def http_json_def)
  from 1 2 3 4 5 6 7 show ?thesis by blast
qed

theorem finnhub_company_news_digest_witness:
  "fst (finnhub_company_news demo_world (ascii ''AAPL'')) = []
   \<and> fst (finnhub_company_news no_key_world (ascii ''AAPL'')) = []
   \<and> fst (finnhub_company_news long_news_world (ascii ''AAPL'')) = [JInt 1, JInt 2]"
  using finnhub_company_news_digest[of demo_world "ascii ''AAPL''"]
        finnhub_company_news_digest[of no_key_world "ascii ''AAPL''"]
        finnhub_company_news_digest[of long_news_world "ascii ''AAPL''"]
  by (simp add: cfg_demo no_key_fields long_news_fields demo_news_get demo_key ascii_def)

text \<open>
  C9, as stated, fails: without a key and with a provider that answers an empty list, the
  function returns the same value and writes the same log lines (none).
\<close>

theorem finnhub_silent_counterexample:
  "fst (finnhub_company_news no_key_world (ascii ''AAPL''))
     = fst (finnhub_company_news empty_news_world (ascii ''AAPL''))
   \<and> filter is_log (snd (finnhub_company_news no_key_world (ascii ''AAPL'')))
     = filter is_log (snd (finnhub_company_news empty_news_world (ascii ''AAPL'')))"
  by (simp add: finnhub_company_news_def http_json_def no_key_fields empty_news_fields
        demo_key ascii_def)

text \<open>
  C9, amended. Without an API key \<open>finnhub_company_news\<close> issues no request, writes no log
  line and returns the empty list. With a key and an empty list from the provider it issues
  the request, writes no log line either and returns the empty list: the two cases differ in
  the request only. With a key, a log line is written exactly when the request raises, answers
  with a status other than 200 or with a body that is not JSON; any JSON answer with status
  200, whatever it holds, leaves the request as the only event.
\<close>

theorem finnhub_missing_key_silent:
  "(FINNHUB_API_KEY (cfg w) = [] \<longrightarrow> finnhub_company_news w t = ([], []))
   \<and> (FINNHUB_API_KEY (cfg w) \<noteq> []
        \<and> news_get (ext w) (news_url w t) = Reply 200 (Inr (JList [])) body
      \<longrightarrow> finnhub_company_news w t = ([], [Get (news_url w t) []]))
   \<and> (FINNHUB_API_KEY (cfg w) \<noteq> []
        \<and> (news_get (ext w) (news_url w t) = Raises e
            \<or> news_get (ext w) (news_url w t) = Reply st js body \<and> (st \<noteq> 200 \<or> js = Inl e))
      \<longrightarrow> (\<exists>msg. finnhub_company_news w t = ([], [Get (news_url w t) [], Log msg])))
   \<and> (FINNHUB_API_KEY (cfg w) \<noteq> []
        \<and> news_get (ext w) (news_url w t) = Reply 200 (Inr j) body
      \<longrightarrow> snd (finnhub_company_news w t) = [Get (news_url w t) []])
   \<and> (filter is_log (snd (finnhub_company_news w t)) \<noteq> []
        \<longleftrightarrow> FINNHUB_API_KEY (cfg w) \<noteq> []
            \<and> ((\<exists>x. news_get (ext w) (news_url w t) = Raises x)
                \<or> (\<exists>s r b. news_get (ext w) (news_url w t) = Reply s r b
                       \<and> (s \<noteq> 200 \<or> (\<exists>x. r = Inl x)))))"
proof -
  have 1: "FINNHUB_API_KEY (cfg w) = [] \<longrightarrow> finnhub_company_news w t = ([], [])"
    by (simp add: finnhub_company_news_def)
  have 2: "FINNHUB_API_KEY (cfg w) \<noteq> []
        \<and> news_get (ext w) (news_url w t) = Reply 200 (Inr (JList [])) body
      \<longrightarrow> finnhub_company_news w t = ([], [Get (news_url w t) []])"
    by (auto simp: finnhub_company_news_def http_json_def)
  have 3: "FINNHUB_API_KEY (cfg w) \<noteq> []
        \<and> (news_get (ext w) (news_url w t) = Raises e
            \<or> news_get (ext w) (news_url w t) = Reply st js body \<and> (st \<noteq> 200 \<or> js = Inl e))
      \<longrightarrow> (\<exists>msg. finnhub_company_news w t = ([], [Get (news_url w t) [], Log msg]))"
    by (auto simp: finnhub_company_news_def http_json_def log_def)
  have 4: "FINNHUB_API_KEY (cfg w) \<noteq> []
        \<and> news_get (ext w) (news_url w t) = Reply 200 (Inr j) body
      \<longrightarrow> snd (finnhub_company_news w t) = [Get (news_url w t) []]"
    by (auto simp: finnhub_company_news_def http_json_def split: json.splits)
  have 5: "filter is_log (snd (finnhub_company_news w t)) \<noteq> []
        \<longleftrightarrow> FINNHUB_API_KEY (cfg w) \<noteq> []
            \<and> ((\<exists>x. news_get (ext w) (news_url w t) = Raises x)
                \<or> (\<exists>s r b. news_get (ext w) (news_url w t) = Reply s r b
                       \<and> (s \<noteq> 200 \<or> (\<exists>x. r = Inl x))))"
  proof (cases "FINNHUB_API_KEY (cfg w) = []")
    case True
    then show ?thesis by (simp add: finnhub_company_news_def)
  next
    case False
    show ?thesis
    proof (cases "news_get (ext w) (news_url w t)")
      case (Raises x)
      with False show ?thesis
        by (simp add: finnhub_company_news_def http_json_def log_def)
    next
      case (Reply s r b)
      with False show ?thesis
        by (cases r) (auto simp: finnhub_company_news_def http_json_def log_def split: json.splits)
    qed
  qed
  from 1 2 3 4 5 show ?thesis by blast
qed

theorem finnhub_missing_key_silent_witness:
  "finnhub_company_news no_key_world (ascii ''AAPL'') = ([], [])
   \<and> finnhub_company_news empty_news_world (ascii ''AAPL'')
       = ([], [Get (news_url empty_news_world (ascii ''AAPL'')) []])
   \<and> (\<exists>msg. finnhub_company_news demo_world (ascii ''AAPL'')
       = ([], [Get (news_url demo_world (ascii ''AAPL'')) [], Log msg]))
   \<and> snd (finnhub_company_news long_news_world (ascii ''AAPL''))
       = [Get (news_url long_news_world (ascii ''AAPL'')) []]
   \<and> filter is_log (snd (finnhub_company_news long_news_world (ascii ''AAPL''))) = []
   \<and> filter is_log (snd (finnhub_company_news demo_world (ascii ''AAPL''))) \<noteq> []"
proof -
  from finnhub_missing_key_silent[of no_key_world "ascii ''AAPL''"]
  have 1: "finnhub_company_news no_key_world (ascii ''AAPL'') = ([], [])"
    by (simp add: no_key_fields)
  from finnhub_missing_key_silent[where w = empty_news_world and t = "ascii ''AAPL''"
           and body = "ascii ''[]''"]
  have 2: "finnhub_company_news empty_news_world (ascii ''AAPL'')
       = ([], [Get (news_url empty_news_world (ascii ''AAPL'')) []])"
    by (simp add: empty_news_fields demo_key ascii_def)
  from finnhub_missing_key_silent[where w = demo_world and t = "ascii ''AAPL''" and st = 403
           and js = "Inl (PyExn (ascii ''not JSON''))" and body = "ascii ''forbidden''"
           and e = "PyExn (ascii ''not JSON'')"]
  have 3: "\<exists>msg. finnhub_company_news demo_world (ascii ''AAPL'')
       = ([], [Get (news_url demo_world (ascii ''AAPL'')) [], Log msg])"
    and 6: "filter is_log (snd (finnhub_company_news demo_world (ascii ''AAPL''))) \<noteq> []"
    by (simp_all add: cfg_demo demo_news_get demo_key ascii_def)
  from finnhub_missing_key_silent[where w = long_news_world and t = "ascii ''AAPL''"
           and j = "JList [JInt 1, JInt 2, JInt 3]" and body = "[]"]
  have 4: "snd (finnhub_company_news long_news_world (ascii ''AAPL''))
       = [Get (news_url long_news_world (ascii ''AAPL'')) []]"
    and 5: "filter is_log (snd (finnhub_company_news long_news_world (ascii ''AAPL''))) = []"
    by (simp_all add: long_news_fields demo_key ascii_def)
  from 1 2 3 4 5 6 show ?thesis by blast
qed

subsection \<open>The run\<close>

lemma is_cms_write_log [simp]: "\<forall>e \<in> set (log m). \<not> is_cms_write e"
  by (simp add: log_def)

lemma post_exists_dup:
  "posts_query (ext w) slug = Reply 200 (Inr (JList (x # xs))) body \<Longrightarrow>
   post_exists w slug = (True, [Get (WP_POSTS_URL w) [(ascii ''slug'', slug)]])"
  by (simp add: post_exists_def)

text \<open>
  C7. If the CMS base address, user name or application password is absent, the run consists
  of two log lines (task start, configuration missing) and returns: no request of any kind is
  issued.
\<close>

theorem main_aborts_without_credentials:
  "WP_BASE_URL (cfg w) = [] \<or> WP_USERNAME (cfg w) = [] \<or> WP_APP_PASSWORD (cfg w) = [] \<Longrightarrow>
   main w = (Inr (), task_start @ config_missing)
   \<and> (\<exists>m1 m2. snd (main w) = [Log m1, Log m2])
   \<and> filter is_network (snd (main w)) = []"
  by (auto simp: main_def task_start_def config_missing_def log_def)

lemma no_password_fields: "cfg no_password_world = demo_cfg\<lparr>WP_APP_PASSWORD := []\<rparr>"
  by (simp add: no_password_world_def demo_world_def)

theorem main_aborts_without_credentials_witness:
  "main no_password_world = (Inr (), task_start @ config_missing)
   \<and> filter is_network (snd (main no_password_world)) = []"
proof -
  have "WP_BASE_URL (cfg no_password_world) = [] \<or> WP_USERNAME (cfg no_password_world) = []
        \<or> WP_APP_PASSWORD (cfg no_password_world) = []"
    by (simp add: no_password_fields)
  from main_aborts_without_credentials[OF this] show ?thesis by blast
qed

text \<open>
  C2. If the CMS answers the duplicate check with a non-empty list, the run returns normally
  and issues no CMS write: no tag search or creation, no media upload, no post creation. With
  the credentials present the whole run is the start line, the duplicate query and the line
  that reports the duplicate.
\<close>

theorem duplicate_stops_before_writes:
  assumes "posts_query (ext w) (run_slug w) = Reply 200 (Inr (JList (x # xs))) body"
  shows "fst (main w) = Inr ()
   \<and> (\<forall>e \<in> set (snd (main w)). \<not> is_cms_write e)
   \<and> (WP_BASE_URL (cfg w) \<noteq> [] \<and> WP_USERNAME (cfg w) \<noteq> [] \<and> WP_APP_PASSWORD (cfg w) \<noteq> []
        \<longrightarrow> snd (main w) = task_start @ [Get (WP_POSTS_URL w) [(ascii ''slug'', run_slug w)]]
                             @ duplicate_found)"
  using post_exists_dup[OF assms]
  by (auto simp: main_def task_start_def config_missing_def duplicate_found_def log_def ascii_def)

lemma duplicate_fields: "cfg duplicate_world = demo_cfg"
  "posts_query (ext duplicate_world) = (\<lambda>slug. Reply 200 (Inr (JList [JDict [(ascii ''id'', JInt 7)]])) [])"
  by (simp_all add: duplicate_world_def demo_world_def)

lemma demo_credentials:
  "WP_BASE_URL demo_cfg \<noteq> []" "WP_USERNAME demo_cfg \<noteq> []" "WP_APP_PASSWORD demo_cfg \<noteq> []"
  by (simp_all add: demo_cfg_def ascii_def)

theorem duplicate_stops_before_writes_witness:
  "fst (main duplicate_world) = Inr ()
   \<and> filter is_cms_write (snd (main duplicate_world)) = []
   \<and> snd (main duplicate_world)
       = task_start @ [Get (WP_POSTS_URL duplicate_world) [(ascii ''slug'', run_slug duplicate_world)]]
         @ duplicate_found"
proof -
  have "posts_query (ext duplicate_world) (run_slug duplicate_world)
          = Reply 200 (Inr (JList (JDict [(ascii ''id'', JInt 7)] # []))) []"
    by (simp add: duplicate_fields)
  from duplicate_stops_before_writes[OF this]
  have "fst (main duplicate_world) = Inr ()"
    and "filter is_cms_write (snd (main duplicate_world)) = []"
    and "WP_BASE_URL (cfg duplicate_world) \<noteq> [] \<and> WP_USERNAME (cfg duplicate_world) \<noteq> []
         \<and> WP_APP_PASSWORD (cfg duplicate_world) \<noteq> []
        \<longrightarrow> snd (main duplicate_world)
            = task_start
              @ [Get (WP_POSTS_URL duplicate_world) [(ascii ''slug'', run_slug duplicate_world)]]
              @ duplicate_found"
    unfolding filter_empty_conv by blast+
  then show ?thesis
    by (simp add: duplicate_fields demo_credentials)
qed

subsection \<open>Nothing but the duplicate check reads the CMS's answer to it\<close>






















lemma main_no_duplicate:
  "WP_BASE_URL (cfg w) \<noteq> [] \<Longrightarrow> WP_USERNAME (cfg w) \<noteq> [] \<Longrightarrow> WP_APP_PASSWORD (cfg w) \<noteq> [] \<Longrightarrow>
   fst (post_exists w (run_slug w)) = False \<Longrightarrow>
   main w = (fst (main_publish w (run_title w) (run_slug w)),
             task_start @ snd (post_exists w (run_slug w))
             @ snd (main_publish w (run_title w) (run_slug w)))"
  by (cases "post_exists w (run_slug w)") (auto simp: main_def split: prod.splits)




subsection \<open>The context block and the dashboard\<close>

lemma price_loop_exact:
  "distinct (map fst pairs) \<Longrightarrow> fst ` set pairs \<inter> fst ` set out = {} \<Longrightarrow>
   fst (price_loop w b pairs out)
     = out @ map (\<lambda>(n, t). (n, spec_latest_close w b t)) pairs"
proof (induction pairs arbitrary: out)
  case Nil
  then show ?case by simp
next
  case (Cons p pairs)
  obtain n t where p: "p = (n, t)" by (cases p)
  from Cons.prems p have n: "n \<notin> fst ` set out" by auto
  have upd: "AList.update n v out = out @ [(n, v)]" for v
    using n by (induction out) auto
  from Cons.prems p have "distinct (map fst pairs)"
    "fst ` set pairs \<inter> fst ` set (out @ [(n, fst (price_of w b t))]) = {}" by auto
  from Cons.IH[OF this] show ?case
    unfolding p fst_price_loop_Cons upd by (simp add: fst_price_of)
qed

lemma market_dashboard_values:
  "fst (market_dashboard w b) = map (\<lambda>(n, t). (n, spec_latest_close w b t)) tickers"
  unfolding market_dashboard_def using price_loop_exact[OF distinct_tickers, of "[]" w b] by simp

lemma m7_prices_values:
  "fst (m7_prices w b) = map (\<lambda>t. (t, spec_latest_close w b t)) names"
proof -
  have "distinct (map fst (map (\<lambda>t. (t, t)) names))"
    using distinct_names by (simp add: comp_def)
  from price_loop_exact[OF this, of "[]" w b] show ?thesis
    unfolding m7_prices_def by (simp add: comp_def)
qed

lemma fst_build_context_text:
  "fst (build_context_text w) =
     (case fst (news_loop w news_tickers) of
        Inl e \<Rightarrow> Inl e
      | Inr news \<Rightarrow>
          Inr (join_with [10]
                 ([macro_header] @ map (context_line w) (fst (market_dashboard w ForContext))
                  @ [m7_header] @ map (context_line w) (fst (m7_prices w ForContext))
                  @ [news_header] @ news)))"
  by (simp add: build_context_text_def split: prod.splits sum.splits)

lemma build_context_text_shape:
  "fst (build_context_text w) = Inr txt \<Longrightarrow>
   \<exists>news. txt = join_with [10]
             ([macro_header] @ map (context_line w) (fst (market_dashboard w ForContext))
              @ [m7_header] @ map (context_line w) (fst (m7_prices w ForContext))
              @ [news_header] @ news)"
  by (auto simp: fst_build_context_text split: sum.splits)

lemma render_dashboard_draws:
  "\<exists>ev. snd (render_dashboard w)
          = ev @ [SaveFig (rendered_path w)
                    (canvas_texts w (fst (market_dashboard w ForImage))
                       (fst (m7_prices w ForImage)))]"
  by (auto simp: render_dashboard_def Let_def split: prod.splits option.splits)

text \<open>
  C8. An absent price is never dropped and never replaced by a number. Both snapshots hold
  one entry per configured instrument, in order, with the outcome of its own request. The
  context text, whenever it is returned, is the macro header, one line \<open>- label: value\<close> per
  macro indicator, the basket header, one such line per basket ticker, the news header and
  the news lines; the dashboard render draws the title, the time, and under each of its two
  headers one line \<open>label: value\<close> (label padded) per instrument. In both, an absent value
  is printed as the text \<open>None\<close>.
\<close>

theorem absent_prices_are_listed:
  "fst (market_dashboard w b) = map (\<lambda>(n, t). (n, spec_latest_close w b t)) tickers
   \<and> fst (m7_prices w b) = map (\<lambda>t. (t, spec_latest_close w b t)) names
   \<and> (\<forall>txt. fst (build_context_text w) = Inr txt \<longrightarrow>
         (\<exists>news. txt = join_with [10]
             ([macro_header] @ map (context_line w) (fst (market_dashboard w ForContext))
              @ [m7_header] @ map (context_line w) (fst (m7_prices w ForContext))
              @ [news_header] @ news)))
   \<and> (\<exists>ev. snd (render_dashboard w)
          = ev @ [SaveFig (rendered_path w)
                    (canvas_texts w (fst (market_dashboard w ForImage))
                       (fst (m7_prices w ForImage)))])
   \<and> canvas_texts w dash m7
       = [ascii ''Market Dashboard'', strftime_canvas (now_jst (ext w) AtCanvas),
          canvas_macro_header]
         @ map (canvas_line w 12) dash @ [canvas_m7_header] @ map (canvas_line w 5) m7
   \<and> context_line w (k, None) = ascii ''- '' @ k @ ascii '': None''
   \<and> context_line w (k, Some f) = ascii ''- '' @ k @ ascii '': '' @ float_str (lib w) f
   \<and> canvas_line w n (k, None) = ljust n k @ ascii '': None''
   \<and> canvas_line w n (k, Some f) = ljust n k @ ascii '': '' @ float_str (lib w) f"
  using market_dashboard_values[of w b] m7_prices_values[of w b] build_context_text_shape[of w]
    render_dashboard_draws[of w]
  by (simp add: canvas_texts_def context_line_def canvas_line_def opt_str_def ascii_def)

lemma news_loop_no_news:
  "\<forall>t \<in> set ts. fst (finnhub_company_news w t) = [] \<Longrightarrow> fst (news_loop w ts) = Inr []"
  by (induction ts) (auto split: prod.splits sum.splits)

lemma demo_no_news: "fst (finnhub_company_news demo_world t) = []"
  by (simp add: finnhub_company_news_def http_json_def cfg_demo demo_news_get demo_key ascii_def)

lemma demo_context_returns: "\<exists>txt. fst (build_context_text demo_world) = Inr txt"
  using news_loop_no_news[of news_tickers demo_world]
  by (simp add: fst_build_context_text demo_no_news)

theorem absent_prices_are_listed_witness:
  "hd (fst (market_dashboard demo_world ForContext)) = (ascii ''VIX'', None)
   \<and> context_line demo_world (ascii ''VIX'', None) = ascii ''- VIX: None''
   \<and> canvas_line demo_world 5 (ascii ''MSFT'', None) = ascii ''MSFT : None''
   \<and> (\<exists>news. fst (build_context_text demo_world)
         = Inr (join_with [10]
             ([macro_header]
              @ map (context_line demo_world) (fst (market_dashboard demo_world ForContext))
              @ [m7_header]
              @ map (context_line demo_world) (fst (m7_prices demo_world ForContext))
              @ [news_header] @ news)))"
proof -
  note T = absent_prices_are_listed[of demo_world ForContext "[]" "[]" "ascii ''VIX''" "Finite 0 0" 5]
  from demo_context_returns obtain c where t: "fst (build_context_text demo_world) = Inr c" ..
  from T t have 4: "\<exists>news. fst (build_context_text demo_world)
         = Inr (join_with [10]
             ([macro_header]
              @ map (context_line demo_world) (fst (market_dashboard demo_world ForContext))
              @ [m7_header]
              @ map (context_line demo_world) (fst (m7_prices demo_world ForContext))
              @ [news_header] @ news))" by auto
  from T have 1: "hd (fst (market_dashboard demo_world ForContext)) = (ascii ''VIX'', None)"
    by (simp add: tickers_def spec_latest_close_def cfg_demo demo_yf ascii_def)
  from T have 2: "context_line demo_world (ascii ''VIX'', None) = ascii ''- VIX: None''"
    by (simp add: ascii_def)
  from absent_prices_are_listed[of demo_world ForContext "[]" "[]" "ascii ''MSFT''" "Finite 0 0" 5]
  have 3: "canvas_line demo_world 5 (ascii ''MSFT'', None) = ascii ''MSFT : None''"
    by (simp add: ascii_def ljust_def)
  from 1 2 3 4 show ?thesis by blast
qed

subsection \<open>The context assembler collects by itself\<close>

lemma snd_price_loop_Cons:
  "snd (price_loop w b ((n, t) # rest) out) =
   snd (price_of w b t)
   @ snd (price_loop w b rest (AList.update n (fst (price_of w b t)) out))"
  by (simp split: prod.splits)

lemma snd_price_of: "\<exists>evs. snd (price_of w b t) = YfHistory t # evs"
  by (simp add: price_of_def split: yf_reply.splits)

lemma snd_build_context_text:
  "snd (build_context_text w) =
   snd (market_dashboard w ForContext) @ snd (m7_prices w ForContext)
   @ snd (news_loop w news_tickers)"
  by (simp add: build_context_text_def split: prod.splits sum.splits)

lemma build_context_text_requests:
  "\<exists>evs. snd (build_context_text w) = YfHistory (ascii ''^VIX'') # evs"
proof -
  from snd_price_of[of w ForContext "ascii ''^VIX''"]
  obtain evs where "snd (price_of w ForContext (ascii ''^VIX'')) = YfHistory (ascii ''^VIX'') # evs" ..
  then show ?thesis
    unfolding snd_build_context_text market_dashboard_def tickers_def snd_price_loop_Cons
    by simp
qed

text \<open>
  C6, as stated, fails: \<open>build_context_text\<close> is not free of network I/O. It takes no
  snapshot as input and sends the price and news requests itself.
\<close>

theorem build_context_text_network_counterexample:
  "filter is_network (snd (build_context_text demo_world)) \<noteq> []"
  using build_context_text_requests[of demo_world] by auto

lemma news_item_lines_lib:
  "lib w = lib w' \<Longrightarrow> news_item_lines w ns = news_item_lines w' ns"
  by (induction ns) (auto simp: py_str_def split: json.splits sum.splits)

lemma fst_news_loop_Cons:
  "fst (news_loop w (t # ts)) =
     (if fst (finnhub_company_news w t) \<noteq> [] then
        (case news_item_lines w (fst (finnhub_company_news w t)) of
           Inl e \<Rightarrow> Inl e
         | Inr ls \<Rightarrow>
             (case fst (news_loop w ts) of
                Inl e \<Rightarrow> Inl e
              | Inr rest \<Rightarrow> Inr ((ascii ''- '' @ t @ ascii '':'') # ls @ rest)))
      else fst (news_loop w ts))"
  by (simp split: prod.splits sum.splits)

lemma news_loop_determined:
  "lib w = lib w' \<Longrightarrow>
   \<forall>t \<in> set ts. fst (finnhub_company_news w t) = fst (finnhub_company_news w' t) \<Longrightarrow>
   fst (news_loop w ts) = fst (news_loop w' ts)"
proof (induction ts)
  case Nil
  then show ?case by simp
next
  case (Cons t ts)
  from Cons have ih: "fst (news_loop w ts) = fst (news_loop w' ts)"
    and f: "fst (finnhub_company_news w t) = fst (finnhub_company_news w' t)" by auto
  from news_item_lines_lib[OF Cons.prems(1)]
  have n: "news_item_lines w ns = news_item_lines w' ns" for ns .
  show ?case unfolding fst_news_loop_Cons ih f n ..
qed

lemma context_line_lib: "lib w = lib w' \<Longrightarrow> context_line w = context_line w'"
  by (auto simp: fun_eq_iff context_line_def opt_str_def split: option.splits)

lemma next_day_fields:
  "cfg next_day_world = demo_cfg" "lib next_day_world = demo_lib"
  "yf (ext next_day_world) = yf demo_ext"
  "news_get (ext next_day_world) = news_get demo_ext"
  "utc_dates (ext next_day_world) = utc_dates demo_ext"
  by (simp_all add: next_day_world_def demo_world_def)

lemma next_day_no_news: "fst (finnhub_company_news next_day_world t) = []"
  by (simp add: finnhub_company_news_def http_json_def next_day_fields demo_news_get demo_key
        ascii_def)

subsection \<open>The requests of the context assembler\<close>

lemma requests_append:
  "price_requests (xs @ ys) = price_requests xs @ price_requests ys"
  "get_requests (xs @ ys) = get_requests xs @ get_requests ys"
  by (simp_all add: price_requests_def get_requests_def)

lemma requests_Nil: "price_requests [] = []" "get_requests [] = []"
  by (simp_all add: price_requests_def get_requests_def)

lemma price_of_requests:
  "price_requests (snd (price_of w b t)) = [t]" "get_requests (snd (price_of w b t)) = []"
  "length (filter is_network (snd (price_of w b t))) = 1"
  by (simp_all add: price_of_def price_requests_def get_requests_def log_def
        split: yf_reply.splits)

lemma price_loop_requests:
  "price_requests (snd (price_loop w b pairs out)) = map snd pairs
   \<and> get_requests (snd (price_loop w b pairs out)) = []
   \<and> length (filter is_network (snd (price_loop w b pairs out))) = length pairs"
proof (induction pairs arbitrary: out)
  case Nil
  then show ?case by (simp add: requests_Nil)
next
  case (Cons p pairs)
  obtain n t where p: "p = (n, t)" by (cases p)
  show ?case
    unfolding p snd_price_loop_Cons
    using Cons.IH[of "AList.update n (fst (price_of w b t)) out"]
    by (simp add: requests_append price_of_requests)
qed

lemma finnhub_requests:
  "price_requests (snd (finnhub_company_news w t)) = []"
  "get_requests (snd (finnhub_company_news w t))
     = (if FINNHUB_API_KEY (cfg w) = [] then [] else [news_url w t])"
  "length (filter is_network (snd (finnhub_company_news w t)))
     = (if FINNHUB_API_KEY (cfg w) = [] then 0 else 1)"
  by (auto simp: finnhub_company_news_def http_json_def price_requests_def get_requests_def
        log_def split: http_reply.splits sum.splits json.splits)

lemma snd_news_loop_Cons:
  "snd (news_loop w (t # ts)) =
     snd (finnhub_company_news w t)
     @ (if fst (finnhub_company_news w t) \<noteq> []
           \<and> (\<exists>e. news_item_lines w (fst (finnhub_company_news w t)) = Inl e)
        then [] else snd (news_loop w ts))"
  by (auto split: prod.splits sum.splits)

lemma news_loop_stops:
  "fst (finnhub_company_news w t) \<noteq> [] \<Longrightarrow>
   news_item_lines w (fst (finnhub_company_news w t)) = Inl e \<Longrightarrow>
   fst (news_loop w (t # ts)) = Inl e"
  by (simp add: fst_news_loop_Cons del: news_loop.simps)

lemma news_loop_requests:
  "price_requests (snd (news_loop w ts)) = []
   \<and> (FINNHUB_API_KEY (cfg w) = [] \<longrightarrow> snd (news_loop w ts) = [])
   \<and> (FINNHUB_API_KEY (cfg w) \<noteq> [] \<longrightarrow>
        (\<exists>n. (ts \<noteq> [] \<longrightarrow> 1 \<le> n) \<and> n \<le> length ts
             \<and> get_requests (snd (news_loop w ts)) = map (news_url w) (take n ts)
             \<and> length (filter is_network (snd (news_loop w ts))) = n
             \<and> ((\<exists>ls. fst (news_loop w ts) = Inr ls) \<longrightarrow> n = length ts)))"
proof (induction ts)
  case Nil
  then show ?case by (simp add: requests_Nil)
next
  case (Cons t ts)
  let ?stop = "fst (finnhub_company_news w t) \<noteq> []
           \<and> (\<exists>e. news_item_lines w (fst (finnhub_company_news w t)) = Inl e)"
  have a: "price_requests (snd (news_loop w (t # ts))) = []"
    using Cons.IH
    by (simp add: snd_news_loop_Cons requests_append requests_Nil finnhub_requests
          del: news_loop.simps)
  have b: "FINNHUB_API_KEY (cfg w) = [] \<longrightarrow> snd (news_loop w (t # ts)) = []"
    using Cons.IH by (simp add: snd_news_loop_Cons finnhub_company_news_def del: news_loop.simps)
  have c: "\<exists>n. (t # ts \<noteq> [] \<longrightarrow> 1 \<le> n) \<and> n \<le> length (t # ts)
             \<and> get_requests (snd (news_loop w (t # ts))) = map (news_url w) (take n (t # ts))
             \<and> length (filter is_network (snd (news_loop w (t # ts)))) = n
             \<and> ((\<exists>ls. fst (news_loop w (t # ts)) = Inr ls) \<longrightarrow> n = length (t # ts))"
    if k: "FINNHUB_API_KEY (cfg w) \<noteq> []"
  proof (cases ?stop)
    case True
    then obtain e where "fst (news_loop w (t # ts)) = Inl e"
      using news_loop_stops by blast
    with True k show ?thesis
      by (intro exI[of _ 1])
         (simp add: snd_news_loop_Cons finnhub_requests requests_Nil del: news_loop.simps)
  next
    case False
    from Cons.IH k obtain n where n: "n \<le> length ts"
      "get_requests (snd (news_loop w ts)) = map (news_url w) (take n ts)"
      "length (filter is_network (snd (news_loop w ts))) = n"
      "(\<exists>ls. fst (news_loop w ts) = Inr ls) \<longrightarrow> n = length ts"
      by blast
    have r: "(\<exists>ls. fst (news_loop w (t # ts)) = Inr ls) \<longrightarrow> (\<exists>ls. fst (news_loop w ts) = Inr ls)"
      by (auto simp: fst_news_loop_Cons simp del: news_loop.simps split: if_splits sum.splits)
    from False k n r show ?thesis
      by (intro exI[of _ "Suc n"])
         (auto simp: snd_news_loop_Cons finnhub_requests requests_append
               simp del: news_loop.simps)
  qed
  from a b c show ?case by blast
qed

lemma build_context_text_price_requests:
  "price_requests (snd (build_context_text w)) = map snd tickers @ names"
  using price_loop_requests[of w ForContext tickers "[]"]
        price_loop_requests[of w ForContext "map (\<lambda>t. (t, t)) names" "[]"]
        news_loop_requests[of w news_tickers]
  by (simp add: snd_build_context_text market_dashboard_def m7_prices_def requests_append
        comp_def)

lemma build_context_text_get_requests:
  "get_requests (snd (build_context_text w)) = get_requests (snd (news_loop w news_tickers))
   \<and> length (filter is_network (snd (build_context_text w)))
       = 12 + length (filter is_network (snd (news_loop w news_tickers)))"
  using price_loop_requests[of w ForContext tickers "[]"]
        price_loop_requests[of w ForContext "map (\<lambda>t. (t, t)) names" "[]"]
  by (simp add: snd_build_context_text market_dashboard_def m7_prices_def requests_append
        tickers_def names_def)

lemma build_context_text_returns_news:
  "fst (build_context_text w) = Inr c \<Longrightarrow> \<exists>ls. fst (news_loop w news_tickers) = Inr ls"
  by (auto simp: fst_build_context_text split: sum.splits)

lemma length_news_tickers: "length news_tickers = 7" "news_tickers \<noteq> []"
  by (simp_all add: news_tickers_def)

text \<open>
  C6, amended. \<open>build_context_text\<close> collects by itself: it sends exactly the twelve price
  requests (the five macro indicators, then the seven basket tickers) and, when a news key is
  configured, one news request per news ticker in order, at least the first and all seven
  whenever a text is returned (the loop ends at a news item that raises); without a key it
  sends no news request, and it sends nothing else. The text it returns is a function of the
  collected values alone: two runs in which the macro snapshot, the basket snapshot and the
  news digests are the same (and floats print the same) return the same text or raise the
  same exception.
\<close>

theorem context_text_from_collected_values:
  assumes "lib w = lib w'"
      and "fst (market_dashboard w ForContext) = fst (market_dashboard w' ForContext)"
      and "fst (m7_prices w ForContext) = fst (m7_prices w' ForContext)"
      and "\<forall>t \<in> set news_tickers. fst (finnhub_company_news w t) = fst (finnhub_company_news w' t)"
  shows "fst (build_context_text w) = fst (build_context_text w')
         \<and> (\<exists>evs. snd (build_context_text w) = YfHistory (ascii ''^VIX'') # evs)
         \<and> price_requests (snd (build_context_text w)) = map snd tickers @ names
         \<and> (FINNHUB_API_KEY (cfg w) = [] \<longrightarrow> get_requests (snd (build_context_text w)) = [])
         \<and> (FINNHUB_API_KEY (cfg w) \<noteq> [] \<longrightarrow>
              (\<exists>n. 1 \<le> n \<and> n \<le> 7
                 \<and> get_requests (snd (build_context_text w))
                     = map (news_url w) (take n news_tickers)
                 \<and> ((\<exists>c. fst (build_context_text w) = Inr c) \<longrightarrow> n = 7)))
         \<and> length (filter is_network (snd (build_context_text w)))
             = 12 + length (get_requests (snd (build_context_text w)))"
proof -
  from news_loop_determined[OF assms(1) assms(4)]
  have n: "fst (news_loop w news_tickers) = fst (news_loop w' news_tickers)" .
  have 1: "fst (build_context_text w) = fst (build_context_text w')"
    unfolding fst_build_context_text n assms(2,3) context_line_lib[OF assms(1)] ..
  note g = build_context_text_get_requests[of w]
  note nl = news_loop_requests[of w news_tickers]
  have 4: "FINNHUB_API_KEY (cfg w) = [] \<longrightarrow> get_requests (snd (build_context_text w)) = []"
    using g nl by (simp add: requests_Nil)
  have 5: "\<exists>n. 1 \<le> n \<and> n \<le> 7
                 \<and> get_requests (snd (build_context_text w))
                     = map (news_url w) (take n news_tickers)
                 \<and> length (filter is_network (snd (news_loop w news_tickers))) = n
                 \<and> ((\<exists>c. fst (build_context_text w) = Inr c) \<longrightarrow> n = 7)"
    if k: "FINNHUB_API_KEY (cfg w) \<noteq> []"
  proof -
    from nl k obtain m where m: "1 \<le> m" "m \<le> length news_tickers"
      "get_requests (snd (news_loop w news_tickers)) = map (news_url w) (take m news_tickers)"
      "length (filter is_network (snd (news_loop w news_tickers))) = m"
      "(\<exists>ls. fst (news_loop w news_tickers) = Inr ls) \<longrightarrow> m = length news_tickers"
      using length_news_tickers(2) by blast
    with g build_context_text_returns_news[of w] show ?thesis
      by (intro exI[of _ m]) (auto simp: length_news_tickers)
  qed
  have 6: "length (filter is_network (snd (build_context_text w)))
             = 12 + length (get_requests (snd (build_context_text w)))"
  proof (cases "FINNHUB_API_KEY (cfg w) = []")
    case True
    with g nl 4 show ?thesis by simp
  next
    case False
    from 5[OF False] obtain m where m: "m \<le> 7"
      "get_requests (snd (build_context_text w)) = map (news_url w) (take m news_tickers)"
      "length (filter is_network (snd (news_loop w news_tickers))) = m" by blast
    from m(1,2) have "length (get_requests (snd (build_context_text w))) = m"
      by (simp add: length_news_tickers)
    with g m(3) show ?thesis by simp
  qed
  from 1 build_context_text_requests[of w] build_context_text_price_requests[of w] 4 5 6
  show ?thesis by blast
qed

theorem context_text_from_collected_values_witness:
  "fst (build_context_text demo_world) = fst (build_context_text next_day_world)
   \<and> (\<exists>evs. snd (build_context_text demo_world) = YfHistory (ascii ''^VIX'') # evs)
   \<and> price_requests (snd (build_context_text demo_world)) = map snd tickers @ names
   \<and> get_requests (snd (build_context_text demo_world))
       = map (news_url demo_world) news_tickers
   \<and> length (filter is_network (snd (build_context_text demo_world))) = 19"
proof -
  have 1: "lib demo_world = lib next_day_world"
    by (simp add: cfg_demo next_day_fields)
  have s: "spec_latest_close demo_world b t = spec_latest_close next_day_world b t" for b t
    by (simp add: spec_latest_close_def cfg_demo next_day_fields cong: yf_reply.case_cong if_cong)
  have 2: "fst (market_dashboard demo_world ForContext)
             = fst (market_dashboard next_day_world ForContext)"
    by (simp add: market_dashboard_values s)
  have 3: "fst (m7_prices demo_world ForContext) = fst (m7_prices next_day_world ForContext)"
    by (simp add: m7_prices_values s)
  have 4: "\<forall>t \<in> set news_tickers. fst (finnhub_company_news demo_world t)
             = fst (finnhub_company_news next_day_world t)"
    by (simp add: demo_no_news next_day_no_news)
  note T = context_text_from_collected_values[OF 1 2 3 4]
  have k: "FINNHUB_API_KEY (cfg demo_world) \<noteq> []"
    by (simp add: cfg_demo demo_key ascii_def)
  from T k demo_context_returns
  have g: "get_requests (snd (build_context_text demo_world))
       = map (news_url demo_world) news_tickers"
    using length_news_tickers by auto
  with T have "length (filter is_network (snd (build_context_text demo_world))) = 19"
    by (simp add: length_news_tickers)
  with T g show ?thesis by blast
qed

subsection \<open>Splitting, joining and dedenting\<close>

lemma split_on_nonempty: "split_on c s \<noteq> []"
  by (induction s) (auto split: list.splits)

lemma join_split: "join_with [c] (split_on c s) = s"
proof (induction s)
  case Nil
  then show ?case by simp
next
  case (Cons x s)
  show ?case
  proof (cases "x = c")
    case True
    with Cons show ?thesis
      by (cases "split_on c s") (simp_all add: split_on_nonempty)
  next
    case False
    obtain l ls where s: "split_on c s = l # ls"
      using split_on_nonempty[of c s] by (cases "split_on c s") auto
    with Cons False show ?thesis by (cases ls) auto
  qed
qed

lemma filter_join:
  "P c \<Longrightarrow> filter P (join_with [c] ls) = join_with [c] (map (filter P) ls)"
  by (induction "[c]" ls rule: join_with.induct) auto

lemma filter_blank_line: "filter nonblank (blank_line l) = filter nonblank l"
  by (auto simp: blank_line_def nonblank_def list_all_iff filter_empty_conv)

lemma common_prefix_blank: "list_all is_blank a \<Longrightarrow> list_all is_blank (common_prefix a b)"
  by (induction a b rule: common_prefix.induct) auto

lemma fold_common_prefix_blank:
  "list_all is_blank i \<Longrightarrow>
   list_all is_blank (fold (\<lambda>indent margin. common_prefix margin indent) is i)"
  by (induction "is" arbitrary: i) (auto simp: common_prefix_blank)

lemma dedent_margin_blank: "list_all is_blank (dedent_margin ls)"
proof (cases "map (takeWhile is_blank) (filter (\<lambda>l. \<not> list_all is_blank l) ls)")
  case Nil
  then show ?thesis by (simp add: dedent_margin_def)
next
  case (Cons i "is")
  then have "i \<in> set (map (takeWhile is_blank) (filter (\<lambda>l. \<not> list_all is_blank l) ls))"
    by simp
  then obtain l where "i = takeWhile is_blank l" by auto
  then have "list_all is_blank i"
    by (auto simp: list_all_iff dest: set_takeWhileD)
  from fold_common_prefix_blank[OF this] Cons show ?thesis
    by (simp add: dedent_margin_def)
qed

lemma filter_strip_margin:
  assumes "list_all is_blank m"
  shows "filter nonblank (strip_margin m l) = filter nonblank l"
proof (cases "take (length m) l = m")
  case True
  then have "l = m @ drop (length m) l" by (metis append_take_drop_id)
  then have "filter nonblank l = filter nonblank m @ filter nonblank (drop (length m) l)"
    by (metis filter_append)
  moreover from assms have "filter nonblank m = []"
    by (auto simp: nonblank_def list_all_iff filter_empty_conv)
  ultimately show ?thesis using True by (simp add: strip_margin_def)
next
  case False
  then show ?thesis by (simp add: strip_margin_def)
qed

lemma dedent_keeps_nonblank: "filter nonblank (dedent s) = filter nonblank s"
proof -
  let ?ls = "map blank_line (split_on 10 s)"
  have nl: "nonblank 10" by (simp add: nonblank_def is_blank_def)
  have "filter nonblank (dedent s)
          = join_with [10] (map (filter nonblank) (map (strip_margin (dedent_margin ?ls)) ?ls))"
    by (simp add: dedent_def Let_def filter_join[of nonblank 10, OF nl])
  also have "\<dots> = join_with [10] (map (filter nonblank) (split_on 10 s))"
    by (simp add: comp_def filter_strip_margin[OF dedent_margin_blank] filter_blank_line)
  also have "\<dots> = filter nonblank (join_with [10] (split_on 10 s))"
    by (simp add: filter_join[of nonblank 10, OF nl])
  finally show ?thesis by (simp add: join_split)
qed

lemma py_strip_nonempty: "c \<in> set s \<Longrightarrow> \<not> py_isspace c \<Longrightarrow> py_strip s \<noteq> []"
proof -
  assume c: "c \<in> set s" "\<not> py_isspace c"
  then have "c \<in> set (dropWhile py_isspace s)"
    by (metis (full_types) UnE set_append set_takeWhileD takeWhile_dropWhile_id)
  then have "c \<in> set (rev (dropWhile py_isspace s))" by simp
  with c(2) have "c \<in> set (dropWhile py_isspace (rev (dropWhile py_isspace s)))"
    by (metis (full_types) UnE set_append set_takeWhileD takeWhile_dropWhile_id)
  then have "dropWhile py_isspace (rev (dropWhile py_isspace s)) \<noteq> []" by force
  then show ?thesis unfolding py_strip_def by (simp only: rev_is_Nil_conv not_False_eq_True)
qed

lemma one_in_head: "49 \<in> set template_head"
  by (simp add: template_head_def ascii_def)

lemma long_article_fallback_nonempty: "long_article_fallback w ctx \<noteq> []"
proof -
  let ?text = "template_head @ strftime_date_ja (now_jst (ext w) AtFallbackText)
                 @ template_middle @ ctx @ template_tail"
  have "49 \<in> set (filter nonblank ?text)"
    using one_in_head by (simp add: nonblank_def is_blank_def)
  then have "49 \<in> set (filter nonblank (dedent ?text))"
    by (simp only: dedent_keeps_nonblank)
  then have "49 \<in> set (dedent ?text)" by simp
  moreover have "\<not> py_isspace 49" by (simp add: py_isspace_def)
  ultimately show ?thesis
    unfolding long_article_fallback_def by (rule py_strip_nonempty)
qed



lemma split_on_append: "split_on c (a @ c # b) = split_on c a @ split_on c b"
proof (induction a)
  case Nil
  then show ?case by simp
next
  case (Cons x a)
  obtain l ls where s: "split_on c a = l # ls"
    using split_on_nonempty[of c a] by (cases "split_on c a") auto
  with Cons show ?case by simp
qed

lemma split_on_single: "c \<notin> set s \<Longrightarrow> split_on c s = [s]"
  by (induction s) auto

lemma split_on_prepend:
  "c \<notin> set p \<Longrightarrow> split_on c (p @ s) = (p @ hd (split_on c s)) # tl (split_on c s)"
proof (induction p)
  case Nil
  then show ?case using split_on_nonempty[of c s] by simp
next
  case (Cons x p)
  then show ?case by simp
qed

lemma join_append:
  "xs \<noteq> [] \<Longrightarrow> ys \<noteq> [] \<Longrightarrow>
   join_with sep (xs @ ys) = join_with sep xs @ sep @ join_with sep ys"
proof (induction sep xs rule: join_with.induct)
  case (1 sep)
  then show ?case by simp
next
  case (2 sep x)
  then show ?case by (cases ys) simp_all
next
  case (3 sep x y ys)
  then show ?case by simp
qed

lemma blank_lines_append: "blank_lines (a @ 10 # b) = blank_lines a @ 10 # blank_lines b"
  by (simp add: blank_lines_def split_on_append join_append split_on_nonempty)

lemma blank_line_id: "l = [] \<or> list_ex nonblank l \<Longrightarrow> blank_line l = l"
  by (auto simp: blank_line_def nonblank_def list_all_iff list_ex_iff)

lemma blank_lines_id: "no_blank_only_line s \<Longrightarrow> blank_lines s = s"
proof -
  assume "no_blank_only_line s"
  then have "map blank_line (split_on 10 s) = split_on 10 s"
    by (auto simp: no_blank_only_line_def list_all_iff blank_line_id intro!: map_idI)
  then show ?thesis by (simp add: blank_lines_def join_split)
qed

lemma fold_common_prefix_Nil: "fold (\<lambda>indent margin. common_prefix margin indent) is [] = []"
  by (induction "is") simp_all

lemma common_prefix_Nil2: "common_prefix m [] = []"
  by (cases m) simp_all

lemma fold_common_prefix_has_Nil:
  "[] \<in> set (i # is) \<Longrightarrow> fold (\<lambda>indent margin. common_prefix margin indent) is i = []"
proof (induction "is" arbitrary: i)
  case Nil
  then show ?case by simp
next
  case (Cons j js)
  show ?case
  proof (cases "j = [] \<or> i = []")
    case True
    then show ?thesis by (auto simp: common_prefix_Nil2 fold_common_prefix_Nil)
  next
    case False
    with Cons.prems have "[] \<in> set (common_prefix i j # js)" by auto
    from Cons.IH[OF this] show ?thesis by simp
  qed
qed

lemma dedent_margin_Nil:
  assumes "l \<in> set ls" and "l \<noteq> []" and "\<not> is_blank (hd l)"
  shows "dedent_margin ls = []"
proof -
  from assms(2,3) have nb: "\<not> list_all is_blank l" and tw: "takeWhile is_blank l = []"
    by (cases l; simp)+
  let ?ind = "map (takeWhile is_blank) (filter (\<lambda>l. \<not> list_all is_blank l) ls)"
  from assms(1) nb tw have m: "[] \<in> set ?ind" by force
  then obtain i "is" where i: "?ind = i # is" by (cases ?ind) auto
  with m have "[] \<in> set (i # is)" by simp
  from fold_common_prefix_has_Nil[OF this] i show ?thesis
    by (simp add: dedent_margin_def)
qed

lemma strip_margin_Nil: "strip_margin [] l = l"
  by (simp add: strip_margin_def)

lemma dedent_column0:
  assumes "l \<in> set (split_on 10 s)" and "l \<noteq> []" and "\<not> is_blank (hd l)"
  shows "dedent s = blank_lines s"
proof -
  from assms(2,3) have "blank_line l = l"
    by (cases l) (auto simp: blank_line_def)
  with assms(1) have "l \<in> set (map blank_line (split_on 10 s))" by force
  from dedent_margin_Nil[OF this assms(2,3)] show ?thesis
    by (simp add: dedent_def blank_lines_def Let_def strip_margin_Nil cong: map_cong)
qed

lemma py_strip_core:
  assumes "list_all py_isspace pre" and "list_all py_isspace post"
      and "mid \<noteq> []" and "\<not> py_isspace (hd mid)" and "\<not> py_isspace (last mid)"
  shows "py_strip (pre @ mid @ post) = mid"
proof -
  from assms(1) have "dropWhile py_isspace (pre @ mid @ post) = dropWhile py_isspace (mid @ post)"
    by (simp add: list_all_iff dropWhile_append)
  also from assms(3,4) have "\<dots> = mid @ post" by (cases mid) simp_all
  finally have 1: "dropWhile py_isspace (pre @ mid @ post) = mid @ post" .
  from assms(2) have "dropWhile py_isspace (rev post @ rev mid) = dropWhile py_isspace (rev mid)"
    by (simp add: list_all_iff dropWhile_append)
  also from assms(3,5) have "\<dots> = rev mid"
    by (cases "rev mid") (simp_all add: last_rev[symmetric] hd_rev)
  finally show ?thesis by (simp add: py_strip_def 1)
qed


subsection \<open>The fallback template\<close>


lemma head_shape: "template_head = 10 # 32 # 32 # 32 # 32 # drop 5 template_head"
  by (simp add: template_head_def ascii_def)

lemma head_facts:
  "10 \<notin> set (drop 5 template_head)" "hd (drop 5 template_head) = 49"
  "drop 5 template_head \<noteq> []"
  by (simp_all add: template_head_def ascii_def)

lemma middle_shape: "template_middle = 0xFF09 # 10 # middle_body @ [10, 32, 32, 32, 32]"
  by (simp add: template_middle_def middle_body_def ascii_def)

lemma middle_lines: "no_blank_only_line middle_body"
  by (simp add: template_middle_def middle_body_def ascii_def no_blank_only_line_def
        nonblank_def is_blank_def)

lemma tail_shape: "template_tail = 10 # tail_body @ [10, 32, 32, 32, 32]"
  by (simp add: template_tail_def tail_body_def ascii_def)

lemma tail_lines: "no_blank_only_line tail_body"
  by (simp add: template_tail_def tail_body_def ascii_def no_blank_only_line_def
        nonblank_def is_blank_def)

lemma tail_last: "last tail_body = 0x3002" "tail_body \<noteq> []"
  by (simp_all add: template_tail_def tail_body_def ascii_def)

lemma tail_take: "take 574 template_tail = 10 # tail_body"
  by (simp add: template_tail_def tail_body_def ascii_def)



lemma py_dec_digits: "c \<in> set (py_dec n) \<Longrightarrow> 48 \<le> c"
proof (induction n rule: py_dec.induct)
  case (1 n)
  then show ?case
    by (subst (asm) py_dec.simps) (auto split: if_splits)
qed

lemma date_no_newline: "10 \<notin> set (strftime_date_ja d)"
  using py_dec_digits[of 10 "dt_year d"] by (auto simp: strftime_date_ja_def pad2_def)

lemma blank_lines_Nil: "blank_lines [] = []"
  by (simp add: blank_lines_def blank_line_def)

lemma blank_lines_indent: "blank_lines [32, 32, 32, 32] = []"
  by (simp add: blank_lines_def blank_line_def is_blank_def)

lemma join_prepend: "join_with sep ((p @ x) # xs) = p @ join_with sep (x # xs)"
  by (cases xs) simp_all

lemma fallback_splice:
  assumes sp: "split_on 10 ctx = l0 # rest"
      and l0: "list_ex nonblank l0"
      and col0: "l \<in> set rest" "l \<noteq> []" "\<not> is_blank (hd l)"
  shows "long_article_fallback w ctx
           = drop 5 template_head @ strftime_date_ja (now_jst (ext w) AtFallbackText)
             @ template_middle @ blank_lines ctx @ take 574 template_tail"
proof -
  define D where "D = strftime_date_ja (now_jst (ext w) AtFallbackText)"
  define H where "H = drop 5 template_head"
  define L1 where "L1 = [32, 32, 32, 32] @ H @ D @ [0xFF09]"
  define X where "X = [32, 32, 32, 32] @ ctx"
  define mid where "mid = H @ D @ template_middle @ blank_lines ctx @ 10 # tail_body"
  have shape: "template_head @ D @ template_middle @ ctx @ template_tail
                = [] @ 10 # L1 @ 10 # middle_body @ 10 # X @ 10 # tail_body @ 10 # [32, 32, 32, 32]"
    by (subst head_shape, subst middle_shape, subst tail_shape) (simp add: L1_def X_def H_def)
  have splitX: "split_on 10 X = ([32, 32, 32, 32] @ l0) # rest"
    unfolding X_def using split_on_prepend[of 10 "[32, 32, 32, 32]" ctx] sp by simp
  have "split_on 10 ([] @ 10 # L1 @ 10 # middle_body @ 10 # X @ 10 # tail_body
                       @ 10 # [32, 32, 32, 32])
          = split_on 10 [] @ split_on 10 L1 @ split_on 10 middle_body @ split_on 10 X
            @ split_on 10 tail_body @ split_on 10 [32, 32, 32, 32]"
    by (simp only: split_on_append)
  then have "l \<in> set (split_on 10 ([] @ 10 # L1 @ 10 # middle_body @ 10 # X @ 10 # tail_body
                                 @ 10 # [32, 32, 32, 32]))"
    using col0(1) by (simp add: splitX del: split_on.simps)
  from dedent_column0[OF this col0(2,3)]
  have d: "dedent ([] @ 10 # L1 @ 10 # middle_body @ 10 # X @ 10 # tail_body @ 10 # [32, 32, 32, 32])
             = blank_lines [] @ 10 # blank_lines L1 @ 10 # blank_lines middle_body
               @ 10 # blank_lines X @ 10 # blank_lines tail_body @ 10 # blank_lines [32, 32, 32, 32]"
    by (simp only: blank_lines_append)
  have "10 \<notin> set L1"
    using date_no_newline[of "now_jst (ext w) AtFallbackText"] head_facts(1)
    by (simp add: L1_def D_def H_def)
  then have "split_on 10 L1 = [L1]" by (rule split_on_single)
  moreover have "list_ex nonblank L1"
    using head_facts(2,3) by (cases H) (auto simp: L1_def H_def nonblank_def is_blank_def)
  ultimately have bL1: "blank_lines L1 = L1"
    by (intro blank_lines_id) (simp add: no_blank_only_line_def)
  have b0: "blank_line l0 = l0" "blank_line ([32, 32, 32, 32] @ l0) = [32, 32, 32, 32] @ l0"
    using l0 by (simp_all add: blank_line_id)
  have bX: "blank_lines X = [32, 32, 32, 32] @ blank_lines ctx"
    unfolding blank_lines_def splitX sp list.map b0 by (rule join_prepend)
  have ded: "dedent (template_head @ D @ template_middle @ ctx @ template_tail)
               = [10, 32, 32, 32, 32] @ mid @ [10]"
    unfolding shape d bL1 bX blank_lines_Nil blank_lines_indent
      blank_lines_id[OF middle_lines] blank_lines_id[OF tail_lines]
    by (simp add: L1_def mid_def middle_shape)
  have m1: "mid \<noteq> []" "hd mid = 49"
    using head_facts(2,3) by (simp_all add: mid_def H_def)
  have m2: "last mid = 0x3002"
    using tail_last by (simp add: mid_def)
  have "py_strip ([10, 32, 32, 32, 32] @ mid @ [10]) = mid"
    by (rule py_strip_core) (simp_all add: m1 m2 py_isspace_def)
  then show ?thesis
    by (simp add: long_article_fallback_def ded[unfolded D_def] mid_def tail_take H_def D_def)
qed

subsection \<open>Assembled context blocks\<close>

lemma join_with_hd: "\<exists>r. join_with sep ((a # x) # xs) = a # r"
  by (cases xs) simp_all

lemma macro_header_line: "10 \<notin> set macro_header" "list_ex nonblank macro_header"
  by (simp_all add: macro_header_def nonblank_def is_blank_def)

lemma assembled_lines:
  assumes "fst (build_context_text w) = Inr ctx"
  shows "\<exists>l ls. split_on 10 ctx = macro_header # (45 # l) # ls"
proof -
  from assms obtain news where
    c: "ctx = join_with [10]
             ([macro_header] @ map (context_line w) (fst (market_dashboard w ForContext))
              @ [m7_header] @ map (context_line w) (fst (m7_prices w ForContext))
              @ [news_header] @ news)"
    by (auto simp: fst_build_context_text split: sum.splits)
  obtain v more where d: "map (context_line w) (fst (market_dashboard w ForContext))
                            = (45 # v) # more"
    by (simp add: market_dashboard_values tickers_def context_line_def ascii_def)
  obtain r where "join_with [10] (((45 # v) # more)
              @ [m7_header] @ map (context_line w) (fst (m7_prices w ForContext))
              @ [news_header] @ news) = 45 # r"
    using join_with_hd[of "[10]" 45 v] by auto
  with c d have "ctx = macro_header @ 10 # 45 # r" by simp
  then have "split_on 10 ctx = split_on 10 macro_header @ split_on 10 (45 # r)"
    by (simp only: split_on_append)
  moreover obtain l ls where "split_on 10 (45 # r) = (45 # l) # ls"
    using split_on_nonempty[of 10 r] by (cases "split_on 10 r") auto
  ultimately show ?thesis
    using split_on_single[OF macro_header_line(1)] by simp
qed

lemma assembled_fallback:
  assumes "fst (build_context_text w) = Inr ctx"
  shows "long_article_fallback w ctx
           = drop 5 template_head @ strftime_date_ja (now_jst (ext w) AtFallbackText)
             @ template_middle @ blank_lines ctx @ take 574 template_tail"
proof -
  from assembled_lines[OF assms] obtain l ls where
    s: "split_on 10 ctx = macro_header # (45 # l) # ls" by blast
  show ?thesis
    by (rule fallback_splice[OF s macro_header_line(2), of "45 # l"])
       (simp_all add: is_blank_def)
qed



subsection \<open>The article composer\<close>

lemma filter_dropWhile_disjoint:
  "(\<And>x. P x \<Longrightarrow> \<not> Q x) \<Longrightarrow> filter Q (dropWhile P xs) = filter Q xs"
  by (induction xs) auto

lemma filter_py_strip:
  "filter (\<lambda>c. \<not> py_isspace c) (py_strip s) = filter (\<lambda>c. \<not> py_isspace c) s"
  by (simp add: py_strip_def filter_dropWhile_disjoint flip: rev_filter)

lemma filter_dedent_nonspace:
  "filter (\<lambda>c. \<not> py_isspace c) (dedent s) = filter (\<lambda>c. \<not> py_isspace c) s"
proof -
  have sub: "filter (\<lambda>c. \<not> py_isspace c) (filter nonblank xs) = filter (\<lambda>c. \<not> py_isspace c) xs"
    for xs
    by (induction xs) (auto simp: nonblank_def is_blank_def py_isspace_def)
  have "filter (\<lambda>c. \<not> py_isspace c) (filter nonblank (dedent s))
          = filter (\<lambda>c. \<not> py_isspace c) (filter nonblank s)"
    by (simp only: dedent_keeps_nonblank)
  then show ?thesis by (simp only: sub)
qed

lemma py_dec_upper: "c \<in> set (py_dec n) \<Longrightarrow> c \<le> 57"
proof (induction n rule: py_dec.induct)
  case (1 n)
  then show ?case
    by (subst (asm) py_dec.simps) (auto split: if_splits)
qed

lemma date_nonspace: "filter (\<lambda>c. \<not> py_isspace c) (strftime_date_ja d) = strftime_date_ja d"
proof -
  have "\<not> py_isspace c" if "c \<in> set (py_dec (dt_year d))" for c
    using py_dec_digits[OF that] py_dec_upper[OF that] by (auto simp: py_isspace_def)
  moreover have "\<not> py_isspace c" if "c \<in> set (pad2 n)" for c n
  proof -
    from that have "48 \<le> c \<and> c \<le> 57" by (auto simp: pad2_def)
    then show ?thesis by (auto simp: py_isspace_def)
  qed
  ultimately show ?thesis
    by (auto simp: strftime_date_ja_def py_isspace_def filter_id_conv)
qed

lemma fallback_date_injective:
  assumes "long_article_fallback w c = long_article_fallback w' c"
  shows "strftime_date_ja (now_jst (ext w) AtFallbackText)
           = strftime_date_ja (now_jst (ext w') AtFallbackText)"
proof -
  let ?ns = "filter (\<lambda>c. \<not> py_isspace c)"
  have f: "?ns (long_article_fallback v c)
             = ?ns template_head @ ?ns (strftime_date_ja (now_jst (ext v) AtFallbackText))
               @ ?ns template_middle @ ?ns c @ ?ns template_tail" for v
    by (simp add: long_article_fallback_def filter_py_strip filter_dedent_nonspace)
  from assms have "?ns (long_article_fallback w c) = ?ns (long_article_fallback w' c)" by simp
  then show ?thesis unfolding f by (simp add: date_nonspace)
qed

lemma fst_build_article:
  "fst (build_context_text w) = Inr ctx \<Longrightarrow>
   fst (build_article w)
     = Inr (case fst (long_article_by_openai w ctx) of
              None \<Rightarrow> long_article_fallback w ctx
            | Some t \<Rightarrow> if t \<noteq> [] then t else long_article_fallback w ctx)"
  by (cases "build_context_text w"; cases "long_article_by_openai w ctx")
     (simp add: build_article_def)

lemma generative_path_fails:
  "\<not> client w
   \<or> (\<exists>e. chat (ext w) sys_prompt (user_prompt ctx) = ChatRaises e)
   \<or> (\<exists>c. chat (ext w) sys_prompt (user_prompt ctx) = ChatContent c \<and> py_strip c = []) \<Longrightarrow>
   (case fst (long_article_by_openai w ctx) of
      None \<Rightarrow> long_article_fallback w ctx
    | Some t \<Rightarrow> if t \<noteq> [] then t else long_article_fallback w ctx)
   = long_article_fallback w ctx"
  by (auto simp: long_article_by_openai_def)

text \<open>
  C3, amended. Whenever context assembly returns a context block, \<open>build_article\<close> returns
  a non-empty text. If the generative path is disabled or fails (no client, an exception, an
  empty answer), that text is the fallback: the fixed template, with the run's date (JST) in
  its first heading and the context block in its second section, where lines of the block
  that consist of spaces and tabs only are emptied and everything else is verbatim. The
  fallback never fails or returns the empty text, and for one context block it is the same in
  two runs exactly when their dates are the same.
\<close>

theorem build_article_fallback:
  "(\<forall>ctx. fst (build_context_text w) = Inr ctx \<longrightarrow>
      (\<exists>t. fst (build_article w) = Inr t \<and> t \<noteq> [])
      \<and> (\<not> client w
           \<or> (\<exists>e. chat (ext w) sys_prompt (user_prompt ctx) = ChatRaises e)
           \<or> (\<exists>c. chat (ext w) sys_prompt (user_prompt ctx) = ChatContent c \<and> py_strip c = [])
          \<longrightarrow> fst (build_article w) = Inr (long_article_fallback w ctx))
      \<and> long_article_fallback w ctx = spliced_verbatim w (blank_lines ctx)
      \<and> (no_blank_only_line ctx \<longrightarrow> blank_lines ctx = ctx))
   \<and> long_article_fallback w c \<noteq> []
   \<and> (long_article_fallback w c = long_article_fallback w' c
        \<longleftrightarrow> strftime_date_ja (now_jst (ext w) AtFallbackText)
            = strftime_date_ja (now_jst (ext w') AtFallbackText))"
proof -
  have 1: "\<exists>t. fst (build_article w) = Inr t \<and> t \<noteq> []"
    if "fst (build_context_text w) = Inr ctx" for ctx
    using fst_build_article[OF that] long_article_fallback_nonempty[of w ctx]
    by (auto split: option.splits)
  have 2: "fst (build_article w) = Inr (long_article_fallback w ctx)"
    if "fst (build_context_text w) = Inr ctx"
      and "\<not> client w
           \<or> (\<exists>e. chat (ext w) sys_prompt (user_prompt ctx) = ChatRaises e)
           \<or> (\<exists>c. chat (ext w) sys_prompt (user_prompt ctx) = ChatContent c \<and> py_strip c = [])"
    for ctx
    using fst_build_article[OF that(1)] generative_path_fails[OF that(2)] by simp
  have 3: "long_article_fallback w c = long_article_fallback w' c
        \<longleftrightarrow> strftime_date_ja (now_jst (ext w) AtFallbackText)
            = strftime_date_ja (now_jst (ext w') AtFallbackText)"
    using fallback_date_injective[of w c w'] by (auto simp: long_article_fallback_def)
  have 4: "long_article_fallback w ctx = spliced_verbatim w (blank_lines ctx)"
    if "fst (build_context_text w) = Inr ctx" for ctx
    using assembled_fallback[OF that] by (simp add: spliced_verbatim_def)
  from 1 2 3 4 blank_lines_id long_article_fallback_nonempty[of w c]
  show ?thesis by blast
qed


lemma demo_no_client:
  "\<not> client demo_world" "\<not> client next_day_world" "\<not> client blank_headline_world"
  by (simp_all add: client_def cfg_demo next_day_fields blank_headline_world_def demo_world_def
        demo_cfg_def)

lemma demo_dates_differ:
  "strftime_date_ja (now_jst (ext demo_world) AtFallbackText)
     \<noteq> strftime_date_ja (now_jst (ext next_day_world) AtFallbackText)"
  by (simp add: strftime_date_ja_def pad2_def cfg_demo demo_ext_def next_day_world_def
        demo_world_def)

theorem build_article_fallback_witness:
  "(\<exists>ctx. fst (build_context_text demo_world) = Inr ctx
      \<and> fst (build_article demo_world) = Inr (long_article_fallback demo_world ctx)
      \<and> long_article_fallback demo_world ctx = spliced_verbatim demo_world (blank_lines ctx))
   \<and> long_article_fallback demo_world [] \<noteq> []
   \<and> long_article_fallback demo_world [] \<noteq> long_article_fallback next_day_world []"
proof -
  from demo_context_returns obtain ctx where c: "fst (build_context_text demo_world) = Inr ctx" ..
  note T = build_article_fallback[of demo_world "[]" next_day_world]
  from T c demo_no_client(1)
  have "fst (build_article demo_world) = Inr (long_article_fallback demo_world ctx)"
    and "long_article_fallback demo_world ctx = spliced_verbatim demo_world (blank_lines ctx)"
    by blast+
  moreover from T have "long_article_fallback demo_world [] \<noteq> []" by blast
  moreover from T demo_dates_differ
  have "long_article_fallback demo_world [] \<noteq> long_article_fallback next_day_world []"
    by blast
  ultimately show ?thesis using c by blast
qed



lemma demo_next_day_context:
  "fst (build_context_text demo_world) = fst (build_context_text next_day_world)"
proof -
  have l: "lib demo_world = lib next_day_world"
    by (simp add: cfg_demo next_day_fields)
  have s: "spec_latest_close demo_world b t = spec_latest_close next_day_world b t" for b t
    by (simp add: spec_latest_close_def cfg_demo next_day_fields cong: yf_reply.case_cong if_cong)
  have "\<forall>t \<in> set news_tickers. fst (finnhub_company_news demo_world t)
             = fst (finnhub_company_news next_day_world t)"
    by (simp add: demo_no_news next_day_no_news)
  from news_loop_determined[OF l this]
  have n: "fst (news_loop demo_world news_tickers) = fst (news_loop next_day_world news_tickers)" .
  have d: "fst (market_dashboard demo_world ForContext)
             = fst (market_dashboard next_day_world ForContext)"
    by (simp add: market_dashboard_values s)
  have m: "fst (m7_prices demo_world ForContext) = fst (m7_prices next_day_world ForContext)"
    by (simp add: m7_prices_values s)
  show ?thesis
    unfolding fst_build_context_text context_line_lib[OF l] n d m ..
qed

lemma demo_articles_differ:
  "fst (build_article demo_world) \<noteq> fst (build_article next_day_world)"
proof -
  from demo_context_returns obtain ctx where c: "fst (build_context_text demo_world) = Inr ctx" ..
  then have c': "fst (build_context_text next_day_world) = Inr ctx"
    by (simp add: demo_next_day_context)
  have "fst (build_article demo_world) = Inr (long_article_fallback demo_world ctx)"
    using fst_build_article[OF c] generative_path_fails[of demo_world ctx] demo_no_client(1)
    by simp
  moreover have "fst (build_article next_day_world) = Inr (long_article_fallback next_day_world ctx)"
    using fst_build_article[OF c'] generative_path_fails[of next_day_world ctx] demo_no_client(2)
    by simp
  moreover have "long_article_fallback demo_world ctx \<noteq> long_article_fallback next_day_world ctx"
    using fallback_date_injective[of demo_world ctx next_day_world] demo_dates_differ by blast
  ultimately show ?thesis by simp
qed

lemma length_join_blank:
  "length (join_with [c] (map blank_line ls)) \<le> length (join_with [c] ls)"
proof (induction "[c]" ls rule: join_with.induct)
  case 1
  then show ?case by simp
next
  case (2 x)
  then show ?case by (simp add: blank_line_def)
next
  case (3 x y ys)
  have "length (blank_line x) \<le> length x" by (simp add: blank_line_def)
  with 3 show ?case by simp
qed

lemma length_blank_lines: "length (blank_lines s) \<le> length s"
  using length_join_blank[of 10 "split_on 10 s"] by (simp add: blank_lines_def join_split)

lemma blank_lines_shrinks: "blank_lines (P @ 10 # 32 # 10 # Q) \<noteq> P @ 10 # 32 # 10 # Q"
proof -
  have "blank_lines (P @ 10 # [32] @ 10 # Q) = blank_lines P @ 10 # blank_lines [32] @ 10 # blank_lines Q"
    by (simp only: blank_lines_append)
  moreover have "blank_lines [32] = []"
    by (simp add: blank_lines_def blank_line_def is_blank_def)
  ultimately have "length (blank_lines (P @ 10 # 32 # 10 # Q))
                     = length (blank_lines P) + length (blank_lines Q) + 2" by simp
  with length_blank_lines[of P] length_blank_lines[of Q]
  have "length (blank_lines (P @ 10 # 32 # 10 # Q)) < length (P @ 10 # 32 # 10 # Q)" by simp
  then show ?thesis by (metis less_irrefl)
qed

lemma join_with_contains: "\<exists>P Q. join_with sep (xs @ x # ys) = P @ x @ Q"
proof (induction xs)
  case Nil
  show ?case by (cases ys) (auto intro: exI[of _ "[]"])
next
  case (Cons a xs)
  then obtain P Q where "join_with sep (xs @ x # ys) = P @ x @ Q" by blast
  moreover have "join_with sep (a # xs @ x # ys) = a @ sep @ join_with sep (xs @ x # ys)"
    by (cases "xs @ x # ys") simp_all
  ultimately have "join_with sep ((a # xs) @ x # ys) = (a @ sep @ P) @ x @ Q" by simp
  then show ?case by blast
qed

lemma blank_headline_fields:
  "cfg blank_headline_world = demo_cfg" "lib blank_headline_world = demo_lib"
  "news_get (ext blank_headline_world)
     = (\<lambda>url. Reply 200
                 (Inr (JList
                    [JDict [(ascii ''headline'', JStr (ascii ''Up'' @ [10, 32, 10] @ ascii ''Down'')),
                            (ascii ''url'', JStr (ascii ''https://n.example/1''))]]))
                 [])"
  by (simp_all add: blank_headline_world_def demo_world_def)

lemma blank_headline_news:
  "fst (finnhub_company_news blank_headline_world t)
     = [JDict [(ascii ''headline'', JStr (ascii ''Up'' @ [10, 32, 10] @ ascii ''Down'')),
               (ascii ''url'', JStr (ascii ''https://n.example/1''))]]"
  by (simp add: finnhub_company_news_def http_json_def blank_headline_fields demo_key ascii_def)

lemma blank_headline_item:
  "news_item_lines blank_headline_world
     [JDict [(ascii ''headline'', JStr (ascii ''Up'' @ [10, 32, 10] @ ascii ''Down'')),
             (ascii ''url'', JStr (ascii ''https://n.example/1''))]]
   = Inr [(ascii ''  - Up'') @ 10 # 32 # 10 # (ascii ''Down (https://n.example/1)'')]"
  by (simp add: dict_get_def py_str_def py_strip_def py_isspace_def ascii_def)

lemma blank_headline_loop:
  "\<exists>rest. fst (news_loop blank_headline_world (t # ts))
     = Inr ((ascii ''- '' @ t @ ascii '':'')
            # ((ascii ''  - Up'') @ 10 # 32 # 10 # (ascii ''Down (https://n.example/1)''))
            # rest)"
proof -
  have "\<exists>ls. fst (news_loop blank_headline_world us) = Inr ls" for us
  proof (induction us)
    case Nil
    then show ?case by simp
  next
    case (Cons u us)
    then show ?case
      unfolding fst_news_loop_Cons blank_headline_news blank_headline_item by auto
  qed
  then obtain ls where "fst (news_loop blank_headline_world ts) = Inr ls" by blast
  then show ?thesis
    unfolding fst_news_loop_Cons blank_headline_news blank_headline_item by simp
qed

lemma blank_headline_article:
  "fst (build_article blank_headline_world)
     \<noteq> map_sum id (spliced_verbatim blank_headline_world)
         (fst (build_context_text blank_headline_world))"
proof -
  let ?w = blank_headline_world
  let ?line = "(ascii ''  - Up'') @ 10 # 32 # 10 # (ascii ''Down (https://n.example/1)'')"
  from blank_headline_loop[of "ascii ''AAPL''" "tl news_tickers"]
  obtain rest where n: "fst (news_loop ?w news_tickers)
      = Inr ((ascii ''- '' @ ascii ''AAPL'' @ ascii '':'') # ?line # rest)"
    by (auto simp: news_tickers_def)
  define pre where "pre = [macro_header] @ map (context_line ?w) (fst (market_dashboard ?w ForContext))
              @ [m7_header] @ map (context_line ?w) (fst (m7_prices ?w ForContext))
              @ [news_header] @ [ascii ''- '' @ ascii ''AAPL'' @ ascii '':'']"
  define ctx where "ctx = join_with [10] (pre @ ?line # rest)"
  have c: "fst (build_context_text ?w) = Inr ctx"
    unfolding fst_build_context_text n by (simp add: ctx_def pre_def)
  from join_with_contains[of "[10]" pre ?line rest]
  obtain P Q where "ctx = P @ ?line @ Q" unfolding ctx_def by blast
  then have "ctx = (P @ ascii ''  - Up'') @ 10 # 32 # 10 # (ascii ''Down (https://n.example/1)'' @ Q)"
    by simp
  then have b: "blank_lines ctx \<noteq> ctx"
    using blank_lines_shrinks[of "P @ ascii ''  - Up''" "ascii ''Down (https://n.example/1)'' @ Q"]
    by simp
  have "fst (build_article ?w) = Inr (long_article_fallback ?w ctx)"
    using fst_build_article[OF c] generative_path_fails[of ?w ctx] demo_no_client(3) by simp
  also have "long_article_fallback ?w ctx = spliced_verbatim ?w (blank_lines ctx)"
    using assembled_fallback[OF c] by (simp add: spliced_verbatim_def)
  finally show ?thesis using b by (simp add: c spliced_verbatim_def)
qed

text \<open>
  C3, as stated, fails twice. Two runs on consecutive days assemble the same context block
  and, with the generative path disabled, return different texts. And a run whose news
  headline holds a line of one space returns a text that is not the template with the
  assembled block spliced in verbatim.
\<close>

theorem build_article_fallback_counterexample:
  "fst (build_context_text demo_world) = fst (build_context_text next_day_world)
   \<and> fst (build_article demo_world) \<noteq> fst (build_article next_day_world)
   \<and> fst (build_article blank_headline_world)
       \<noteq> map_sum id (spliced_verbatim blank_headline_world)
           (fst (build_context_text blank_headline_world))"
  using demo_next_day_context demo_articles_differ blank_headline_article by blast



subsection \<open>The feature image\<close>

lemma fst_render_dashboard:
  "fst (render_dashboard w)
     = (case savefig (ext w) (rendered_path w)
               (canvas_texts w (fst (market_dashboard w ForImage)) (fst (m7_prices w ForImage))) of
          Some e \<Rightarrow> Inl e
        | None \<Rightarrow> Inr (Some (rendered_path w)))"
  by (simp add: render_dashboard_def Let_def split: prod.splits option.splits)

lemma last_render_dashboard:
  "last (snd (render_dashboard w))
     = SaveFig (rendered_path w)
         (canvas_texts w (fst (market_dashboard w ForImage)) (fst (m7_prices w ForImage)))"
  by (simp add: render_dashboard_def Let_def split: prod.splits option.splits)

lemma render_dashboard_events: "snd (render_dashboard w) \<noteq> []"
  by (simp add: render_dashboard_def Let_def split: prod.splits option.splits)

lemma path_join_nonempty: "b \<noteq> [] \<Longrightarrow> path_join a b \<noteq> []"
  by (simp add: path_join_def)

text \<open>
  What \<open>generate_feature_image\<close> can do: it returns a non-empty path, never \<open>None\<close>, or
  it raises what the Matplotlib render raised.
\<close>

lemma generate_feature_image_outcomes:
  "(\<exists>p. fst (generate_feature_image w) = Inr (Some p) \<and> p \<noteq> [])
   \<or> (\<exists>e. fst (generate_feature_image w) = Inl e
          \<and> savefig (ext w) (rendered_path w)
               (canvas_texts w (fst (market_dashboard w ForImage)) (fst (m7_prices w ForImage)))
              = Some e)"
proof -
  have r: "(\<exists>p. fst (render_dashboard w) = Inr (Some p) \<and> p \<noteq> [])
           \<or> (\<exists>e. fst (render_dashboard w) = Inl e
          \<and> savefig (ext w) (rendered_path w)
               (canvas_texts w (fst (market_dashboard w ForImage)) (fst (m7_prices w ForImage)))
              = Some e)"
    by (auto simp: fst_render_dashboard rendered_path_def path_join_nonempty ascii_def
          split: option.splits)
  have g: "fst (generate_feature_image w) = fst (render_dashboard w)
           \<or> (\<exists>p. fst (generate_feature_image w) = Inr (Some p) \<and> p \<noteq> [])"
    by (auto simp: generate_feature_image_def Let_def path_join_nonempty ascii_def
          split: img_reply.splits sum.splits option.splits prod.splits)
  from r g show ?thesis by metis
qed

lemma generate_feature_image_no_client:
  "\<not> client w \<Longrightarrow> generate_feature_image w = render_dashboard w"
  by (simp add: generate_feature_image_def)

lemma main_publish_image_raises:
  assumes "fst (build_article w) = Inr content" and "fst (generate_feature_image w) = Inl e"
  shows "fst (main_publish w title slug) = Inl e
         \<and> (\<exists>evs. snd (main_publish w title slug) = evs @ snd (generate_feature_image w))"
  using assms
  by (cases "build_article w"; cases "generate_feature_image w";
      cases "tag_loop w 0 (tag_names w)")
     (auto simp: main_publish_def Let_def)

lemma unwritable_fields:
  "cfg unwritable_world = demo_cfg" "lib unwritable_world = demo_lib"
  "savefig (ext unwritable_world) = (\<lambda>p ts. Some (PyExn (ascii ''Permission denied'')))"
  "news_get (ext unwritable_world) = news_get demo_ext"
  "posts_query (ext unwritable_world) = posts_query demo_ext"
  by (simp_all add: unwritable_world_def demo_world_def)

lemma unwritable_no_news: "fst (finnhub_company_news unwritable_world t) = []"
  by (simp add: finnhub_company_news_def http_json_def unwritable_fields demo_news_get demo_key
        ascii_def)

lemma unwritable_article: "\<exists>c. fst (build_article unwritable_world) = Inr c"
proof -
  have "\<exists>c. fst (build_context_text unwritable_world) = Inr c"
    using news_loop_no_news[of news_tickers unwritable_world]
    by (simp add: fst_build_context_text unwritable_no_news)
  then obtain c where "fst (build_context_text unwritable_world) = Inr c" ..
  from fst_build_article[OF this] show ?thesis by blast
qed

text \<open>
  C1, at a run the code does not survive: no generative client, and a host on which the
  Matplotlib render cannot write its file. \<open>generate_feature_image\<close> raises instead of
  returning \<open>None\<close>, nothing catches the exception in \<open>main\<close>, and the run ends with the
  failed render as its last event: no log line about the failure, no upload, no post.
\<close>

theorem feature_image_render_failure_aborts:
  "fst (generate_feature_image unwritable_world) = Inl (PyExn (ascii ''Permission denied''))
   \<and> fst (main unwritable_world) = Inl (PyExn (ascii ''Permission denied''))
   \<and> last (snd (main unwritable_world))
       = SaveFig (rendered_path unwritable_world)
           (canvas_texts unwritable_world (fst (market_dashboard unwritable_world ForImage))
              (fst (m7_prices unwritable_world ForImage)))"
proof -
  let ?w = unwritable_world
  have nc: "\<not> client ?w"
    by (simp add: client_def unwritable_fields demo_cfg_def)
  have g: "fst (generate_feature_image ?w) = Inl (PyExn (ascii ''Permission denied''))"
    by (simp add: generate_feature_image_no_client[OF nc] fst_render_dashboard unwritable_fields)
  from unwritable_article obtain c where a: "fst (build_article ?w) = Inr c" ..
  from main_publish_image_raises[OF a g, of "run_title ?w" "run_slug ?w"]
  obtain evs where p: "fst (main_publish ?w (run_title ?w) (run_slug ?w))
                         = Inl (PyExn (ascii ''Permission denied''))"
    "snd (main_publish ?w (run_title ?w) (run_slug ?w)) = evs @ snd (render_dashboard ?w)"
    by (auto simp: generate_feature_image_no_client[OF nc])
  have e: "fst (post_exists ?w (run_slug ?w)) = False"
    by (simp add: post_exists_def unwritable_fields demo_ext_def)
  have m: "main ?w = (fst (main_publish ?w (run_title ?w) (run_slug ?w)),
             task_start @ snd (post_exists ?w (run_slug ?w))
             @ snd (main_publish ?w (run_title ?w) (run_slug ?w)))"
    by (rule main_no_duplicate) (simp_all add: unwritable_fields demo_credentials e)
  have "last (snd (main ?w)) = last (snd (render_dashboard ?w))"
    by (simp add: m p render_dashboard_events)
  with g m p show ?thesis by (simp add: last_render_dashboard)
qed

subsection \<open>The duplicate check fails open\<close>












end
